theory Spec2Isabelle
  imports Complex_Main "HOL-Library.AList"
begin

section \<open>Conventions of the embedding\<close>

text \<open>
  The program is JavaScript. Its numbers are IEEE doubles; the embedding computes in
  \<^typ>\<open>real\<close>, so rounding, overflow and the value NaN are outside the model, except in
  the section on degenerate geometry, where NaN and the infinities are values of their own.
  A JavaScript string is a list of UTF-16 code units, modelled as \<^typ>\<open>nat list\<close>.
  A position \<open>{x, y}\<close> and a direction \<open>{dx, dy}\<close> are pairs of reals.
  \<open>Math.random()\<close>, \<open>Date.now()\<close> and the results of the floating-point direction pipeline
  are inputs of the model, never computed by it.
\<close>

type_synonym jsstring = "nat list"
type_synonym point = "real \<times> real"

definition ascii :: "string \<Rightarrow> jsstring" where
  "ascii s = map of_char s"

text \<open>
  A node of \<open>OrganicLayout\<close> (the object literals of \<open>initialize\<close>, \<open>grow\<close> and
  \<open>createSemanticBranch\<close>). The id \<open>node_k\<close> is represented by the number \<open>k\<close>.
  The field \<open>children\<close> (ids, appended to by \<open>grow\<close>, read by no modelled function) and the
  decorative annotations (\<open>semanticResonance\<close>, \<open>collocationStrength\<close>, \<open>readingDepth\<close>,
  \<open>temporalLayer\<close>, \<open>branchType\<close>) are left out; no other field of a node is written after
  its creation, so nodes are values.
\<close>

record node =
  n_id :: nat
  n_char :: jsstring
  n_position :: point
  n_velocity :: point
  n_energy :: real
  n_generation :: nat
  n_textIndex :: nat
  n_parent :: "nat option"
  n_curvature :: real

text \<open>\<open>Math.sqrt(dx * dx + dy * dy)\<close> of the difference of two positions.\<close>

definition getDistance :: "point \<Rightarrow> point \<Rightarrow> real" where
  "getDistance pos1 pos2 =
     (let dx = fst pos1 - fst pos2; dy = snd pos1 - snd pos2
      in sqrt (dx * dx + dy * dy))"

section \<open>The spatial grid index (class SpatialIndex)\<close>

text \<open>
  \<open>grid\<close> and \<open>queryCache\<close> are JavaScript Maps: association lists in insertion order.
  A grid key \<open>"gx,gy"\<close> is the pair \<open>(gx, gy)\<close>. A cache key is built with \<open>toFixed(1)\<close>:
  a sign and the number of tenths nearest to the absolute value (ties upwards).
\<close>

type_synonym gridKey = "int \<times> int"
type_synonym fixed1 = "bool \<times> int"
type_synonym cacheKey = "fixed1 \<times> fixed1 \<times> fixed1"

record SpatialIndex =
  width :: real
  height :: real
  cellSize :: real
  gridWidth :: int
  gridHeight :: int
  grid :: "(gridKey \<times> node list) list"
  itemCount :: int
  queryCache :: "(cacheKey \<times> node list) list"
  maxCacheSize :: nat

text \<open>\<open>Math.max(1, Number(v) || d)\<close> on a numeric argument: zero is falsy.\<close>

definition orDefault :: "real \<Rightarrow> real \<Rightarrow> real" where
  "orDefault v d = max 1 (if v = 0 then d else v)"

definition newSpatialIndex :: "real \<Rightarrow> real \<Rightarrow> real \<Rightarrow> SpatialIndex" where
  "newSpatialIndex w h cs =
     (let w' = orDefault w 800; h' = orDefault h 600; cs' = orDefault cs 50
      in \<lparr>width = w', height = h', cellSize = cs',
          gridWidth = \<lceil>w' / cs'\<rceil>, gridHeight = \<lceil>h' / cs'\<rceil>,
          grid = [], itemCount = 0, queryCache = [], maxCacheSize = 1000\<rparr>)"

definition getGridKey :: "SpatialIndex \<Rightarrow> real \<Rightarrow> real \<Rightarrow> gridKey" where
  "getGridKey idx x y =
     (let gridX = \<lfloor>x / cellSize idx\<rfloor>; gridY = \<lfloor>y / cellSize idx\<rfloor>;
          clampedX = max 0 (min (gridWidth idx - 1) gridX);
          clampedY = max 0 (min (gridHeight idx - 1) gridY)
      in (clampedX, clampedY))"

definition cellItems :: "(gridKey \<times> node list) list \<Rightarrow> gridKey \<Rightarrow> node list" where
  "cellItems g key = (case map_of g key of None \<Rightarrow> [] | Some items \<Rightarrow> items)"

text \<open>\<open>findItemById\<close>: the first item with the id, cells in Map order.\<close>

definition findItemById :: "SpatialIndex \<Rightarrow> nat \<Rightarrow> node option" where
  "findItemById idx i = find (\<lambda>item. n_id item = i) (concat (map snd (grid idx)))"

text \<open>
  The loops of \<open>remove\<close>: in every cell every item with the id is spliced out; a cell
  emptied by a splice is deleted from the Map. The second component counts the splices.
\<close>

fun removeFromCells :: "nat \<Rightarrow> (gridKey \<times> node list) list \<Rightarrow> (gridKey \<times> node list) list \<times> nat" where
  "removeFromCells i [] = ([], 0)"
| "removeFromCells i ((key, items) # rest) =
     (let kept = filter (\<lambda>item. n_id item \<noteq> i) items;
          k = length items - length kept;
          r = removeFromCells i rest
      in ((if 0 < k \<and> kept = [] then fst r else (key, kept) # fst r), k + snd r))"

definition clearQueryCache :: "SpatialIndex \<Rightarrow> SpatialIndex" where
  "clearQueryCache idx = idx\<lparr>queryCache := []\<rparr>"

definition remove_item :: "SpatialIndex \<Rightarrow> nat \<Rightarrow> bool \<times> SpatialIndex" where
  "remove_item idx i =
     (let r = removeFromCells i (grid idx); removed = (0 < snd r)
      in (removed,
          if removed
          then clearQueryCache (idx\<lparr>grid := fst r, itemCount := itemCount idx - int (snd r)\<rparr>)
          else idx))"

text \<open>
  The argument of \<open>insert\<close> and \<open>update\<close> is dynamically typed. \<open>NoItem\<close> is a null item or
  one without id and position, \<open>NoPosition i\<close> an item with id \<open>i\<close> whose position is missing
  or not numeric, \<open>Item n\<close> a well-formed node. Every well-formed item carries an id, as
  every node of the layout does, so \<open>item.id\<close> is truthy.
\<close>

datatype item_arg = NoItem | NoPosition nat | Item node

definition insert_item :: "SpatialIndex \<Rightarrow> item_arg \<Rightarrow> bool \<times> SpatialIndex" where
  "insert_item idx arg =
     (case arg of
        NoItem \<Rightarrow> (False, idx)
      | NoPosition i \<Rightarrow> (False, idx)
      | Item item \<Rightarrow>
          (let idx1 = (if findItemById idx (n_id item) \<noteq> None
                       then snd (remove_item idx (n_id item)) else idx);
               key = getGridKey idx1 (fst (n_position item)) (snd (n_position item));
               g = AList.update key (cellItems (grid idx1) key @ [item]) (grid idx1)
           in (True, clearQueryCache (idx1\<lparr>grid := g, itemCount := itemCount idx1 + 1\<rparr>))))"

definition toFixed1 :: "real \<Rightarrow> fixed1" where
  "toFixed1 v = (v < 0, \<lfloor>10 * \<bar>v\<bar> + 1 / 2\<rfloor>)"

text \<open>The innermost loop of \<open>query\<close>: the items of one cell within the radius.\<close>

definition scanCell :: "SpatialIndex \<Rightarrow> point \<Rightarrow> real \<Rightarrow> int \<Rightarrow> int \<Rightarrow> node list" where
  "scanCell idx position radius gridX gridY =
     (if gridX < 0 \<or> gridWidth idx \<le> gridX \<or> gridY < 0 \<or> gridHeight idx \<le> gridY then []
      else filter (\<lambda>item. getDistance (n_position item) position \<le> radius)
             (cellItems (grid idx) (gridX, gridY)))"

definition scanGrid :: "SpatialIndex \<Rightarrow> point \<Rightarrow> real \<Rightarrow> node list" where
  "scanGrid idx position radius =
     (let gridRadius = \<lceil>radius / cellSize idx\<rceil>;
          centerX = \<lfloor>fst position / cellSize idx\<rfloor>;
          centerY = \<lfloor>snd position / cellSize idx\<rfloor>
      in concat (map (\<lambda>dx. concat (map (\<lambda>dy.
                   scanCell idx position radius (centerX + dx) (centerY + dy))
                 [- gridRadius .. gridRadius]))
               [- gridRadius .. gridRadius]))"

text \<open>
  \<open>query\<close> returns its result and the index with the cache it may have extended. A missing
  or non-numeric position is \<open>None\<close>.
\<close>

definition query :: "SpatialIndex \<Rightarrow> point option \<Rightarrow> real \<Rightarrow> node list \<times> SpatialIndex" where
  "query idx posArg radius =
     (case posArg of
        None \<Rightarrow> ([], idx)
      | Some position \<Rightarrow>
          if radius < 0 then ([], idx)
          else
            (let key = (toFixed1 (fst position), toFixed1 (snd position), toFixed1 radius)
             in case map_of (queryCache idx) key of
                  Some cached \<Rightarrow> (cached, idx)
                | None \<Rightarrow>
                    (let results = scanGrid idx position radius
                     in (results,
                         if length (queryCache idx) < maxCacheSize idx
                         then idx\<lparr>queryCache := queryCache idx @ [(key, results)]\<rparr>
                         else idx))))"

definition update_item :: "SpatialIndex \<Rightarrow> item_arg \<Rightarrow> bool \<times> SpatialIndex" where
  "update_item idx arg =
     (case arg of
        NoItem \<Rightarrow> (False, idx)
      | NoPosition i \<Rightarrow> insert_item (snd (remove_item idx i)) arg
      | Item item \<Rightarrow> insert_item (snd (remove_item idx (n_id item))) arg)"

definition clear :: "SpatialIndex \<Rightarrow> SpatialIndex" where
  "clear idx = clearQueryCache (idx\<lparr>grid := [], itemCount := 0\<rparr>)"

text \<open>
  \<open>findNearest(position, maxDistance = Infinity)\<close>: \<open>None\<close> as distance bound is Infinity.
\<close>

definition belowBound :: "real \<Rightarrow> real option \<Rightarrow> bool" where
  "belowBound d bound = (case bound of None \<Rightarrow> True | Some b \<Rightarrow> d < b)"

fun nearestLoop :: "point \<Rightarrow> node list \<Rightarrow> node option \<times> real option \<Rightarrow> node option \<times> real option" where
  "nearestLoop position [] acc = acc"
| "nearestLoop position (item # rest) acc =
     (let distance = getDistance (n_position item) position
      in if belowBound distance (snd acc)
         then nearestLoop position rest (Some item, Some distance)
         else nearestLoop position rest acc)"

definition searchRadius :: "SpatialIndex \<Rightarrow> real option \<Rightarrow> real" where
  "searchRadius idx maxDistance =
     (case maxDistance of
        None \<Rightarrow> max (cellSize idx) 50
      | Some m \<Rightarrow> min m (max (cellSize idx) 50))"

definition findNearest :: "SpatialIndex \<Rightarrow> point \<Rightarrow> real option \<Rightarrow> node option \<times> SpatialIndex" where
  "findNearest idx position maxDistance =
     (let q = query idx (Some position) (searchRadius idx maxDistance)
      in (fst (nearestLoop position (fst q) (None, maxDistance)), snd q))"

section \<open>The semantic force field (class SemanticField)\<close>

text \<open>
  \<open>semanticGraph\<close> is a Map from a word to a Map from a word to a similarity,
  \<open>collocationMatrix\<close> a Map from the string \<open>word1_word2\<close> to a strength. An entry of
  \<open>readingHistory\<close> keeps the id of the node read, the eye position and the cognitive load
  of its reading state; its timestamp, attention focus, body memory and context, which
  only the narrative reports read, are left out. \<open>contextualLayers\<close> stays empty.
\<close>

record historyEntry =
  h_node :: nat
  h_eyePosition :: point
  h_cognitiveLoad :: real

record SemanticField =
  semanticGraph :: "(jsstring \<times> (jsstring \<times> real) list) list"
  collocationMatrix :: "(jsstring \<times> real) list"
  readingHistory :: "historyEntry list"

definition newSemanticField :: SemanticField where
  "newSemanticField = \<lparr>semanticGraph = [], collocationMatrix = [], readingHistory = []\<rparr>"

text \<open>
  \<open>tokenize\<close>: \<open>text.split(/[\s\<dots>]+/).filter(word => word.length > 0)\<close>. The
  delimiters are the white space of \<open>\s\<close> and the four punctuation marks U+3001, U+3002,
  U+FF01 and U+FF1F of the regular expression.
\<close>

definition isDelimiter :: "nat \<Rightarrow> bool" where
  "isDelimiter c =
     (c \<in> set [9, 10, 11, 12, 13, 32, 160, 5760, 8232, 8233, 8239, 8287, 12288, 65279]
      \<or> (8192 \<le> c \<and> c \<le> 8202)
      \<or> c \<in> set [12289, 12290, 65281, 65311])"

fun splitWords :: "jsstring \<Rightarrow> jsstring \<Rightarrow> jsstring list" where
  "splitWords cur [] = (if cur = [] then [] else [cur])"
| "splitWords cur (c # cs) =
     (if isDelimiter c then (if cur = [] then splitWords [] cs else cur # splitWords [] cs)
      else splitWords (cur @ [c]) cs)"

definition tokenize :: "jsstring \<Rightarrow> jsstring list" where
  "tokenize txt = splitWords [] txt"

text \<open>
  \<open>simpleHash\<close>: \<open>hash = ((hash << 5) - hash) + char; hash = hash & hash\<close>, the shift and
  the conjunction converting to a signed 32-bit integer.
\<close>

definition toInt32 :: "int \<Rightarrow> int" where
  "toInt32 v = (v + 2147483648) mod 4294967296 - 2147483648"

definition simpleHash :: "jsstring \<Rightarrow> int" where
  "simpleHash str = foldl (\<lambda>hash c. toInt32 (toInt32 (hash * 32) - hash + int c)) 0 str"

text \<open>
  \<open>getWordEmbedding\<close> is a function of the hash alone (fifty products of a sine and a
  cosine of its multiples) and \<open>calculateSemanticSimilarity\<close> is the cosine of two
  embeddings, computed in floating point. The model takes the resulting similarity of two
  hashes as the parameter \<open>hsim\<close>.
\<close>

type_synonym hashSimilarity = "int \<Rightarrow> int \<Rightarrow> real"

definition wordSimilarity :: "hashSimilarity \<Rightarrow> jsstring \<Rightarrow> jsstring \<Rightarrow> real" where
  "wordSimilarity hsim word1 word2 = hsim (simpleHash word1) (simpleHash word2)"

definition addSemanticConnection ::
  "(jsstring \<times> (jsstring \<times> real) list) list \<Rightarrow> jsstring \<Rightarrow> jsstring \<Rightarrow> real
     \<Rightarrow> (jsstring \<times> (jsstring \<times> real) list) list" where
  "addSemanticConnection graph word1 word2 strength =
     (let inner = (case map_of graph word1 of None \<Rightarrow> [] | Some m \<Rightarrow> m)
      in AList.update word1 (AList.update word2 strength inner) graph)"

text \<open>The inner loop over \<open>j > i\<close> and the outer loop over \<open>i\<close> of \<open>analyzeSemanticStructure\<close>.\<close>

fun connectWord ::
  "hashSimilarity \<Rightarrow> jsstring \<Rightarrow> jsstring list \<Rightarrow> (jsstring \<times> (jsstring \<times> real) list) list
     \<Rightarrow> (jsstring \<times> (jsstring \<times> real) list) list" where
  "connectWord hsim w [] graph = graph"
| "connectWord hsim w (v # vs) graph =
     (let similarity = wordSimilarity hsim w v
      in connectWord hsim w vs
           (if 3 / 10 < similarity then addSemanticConnection graph w v similarity else graph))"

fun connectWords ::
  "hashSimilarity \<Rightarrow> jsstring list \<Rightarrow> (jsstring \<times> (jsstring \<times> real) list) list
     \<Rightarrow> (jsstring \<times> (jsstring \<times> real) list) list" where
  "connectWords hsim [] graph = graph"
| "connectWords hsim (w # ws) graph = connectWords hsim ws (connectWord hsim w ws graph)"

definition collocationKey :: "jsstring \<Rightarrow> jsstring \<Rightarrow> jsstring" where
  "collocationKey word1 word2 = word1 @ [95] @ word2"

text \<open>\<open>collocationMatrix.get(key) || 0\<close>.\<close>

definition matrixGet :: "(jsstring \<times> real) list \<Rightarrow> jsstring \<Rightarrow> real" where
  "matrixGet m key = (case map_of m key of None \<Rightarrow> 0 | Some v \<Rightarrow> v)"

fun detectCollocationPatterns :: "jsstring list \<Rightarrow> (jsstring \<times> real) list \<Rightarrow> (jsstring \<times> real) list" where
  "detectCollocationPatterns (w # v # rest) m =
     detectCollocationPatterns (v # rest)
       (AList.update (collocationKey w v) (matrixGet m (collocationKey w v) + 1 / 10) m)"
| "detectCollocationPatterns ws m = m"

definition analyzeSemanticStructure :: "hashSimilarity \<Rightarrow> SemanticField \<Rightarrow> jsstring \<Rightarrow> SemanticField" where
  "analyzeSemanticStructure hsim sf txt =
     (let words = tokenize txt
      in sf\<lparr>semanticGraph := connectWords hsim words (semanticGraph sf),
            collocationMatrix := detectCollocationPatterns words (collocationMatrix sf)\<rparr>)"

definition getSemanticDistance :: "SemanticField \<Rightarrow> jsstring \<Rightarrow> jsstring \<Rightarrow> real" where
  "getSemanticDistance sf word1 word2 =
     (case map_of (semanticGraph sf) word1 of
        None \<Rightarrow> 1
      | Some connections \<Rightarrow>
          (case map_of connections word2 of None \<Rightarrow> 1 | Some s \<Rightarrow> 1 - s))"

definition getCollocationStrength :: "SemanticField \<Rightarrow> jsstring \<Rightarrow> jsstring \<Rightarrow> real" where
  "getCollocationStrength sf word1 word2 = matrixGet (collocationMatrix sf) (collocationKey word1 word2)"

definition getSemanticComplexity :: "SemanticField \<Rightarrow> jsstring \<Rightarrow> real" where
  "getSemanticComplexity sf word =
     (case map_of (semanticGraph sf) word of None \<Rightarrow> 1 | Some connections \<Rightarrow> real (length connections))"

definition getContextualLoad :: "SemanticField \<Rightarrow> real" where
  "getContextualLoad sf = real (length (readingHistory sf)) * (1 / 100)"

definition calculateCognitiveLoad :: "SemanticField \<Rightarrow> node \<Rightarrow> real" where
  "calculateCognitiveLoad sf nd =
     (real (length (n_char nd)) + getSemanticComplexity sf (n_char nd) + getContextualLoad sf) / 3"

definition calculateAverageCognitiveLoad :: "SemanticField \<Rightarrow> real" where
  "calculateAverageCognitiveLoad sf =
     (if readingHistory sf = [] then 0
      else sum_list (map h_cognitiveLoad (readingHistory sf)) / real (length (readingHistory sf)))"

text \<open>
  \<open>simulateReadingBody\<close> appends an entry to the reading history unless the node has no
  label. The direction it returns is part of the direction pipeline, an input of the model.
\<close>

definition simulateReadingBody :: "SemanticField \<Rightarrow> node \<Rightarrow> SemanticField" where
  "simulateReadingBody sf currentNode =
     (if n_char currentNode = [] then sf
      else sf\<lparr>readingHistory := readingHistory sf @
                 [\<lparr>h_node = n_id currentNode, h_eyePosition = n_position currentNode,
                   h_cognitiveLoad = calculateCognitiveLoad sf currentNode\<rparr>]\<rparr>)"

subsection \<open>Spirals\<close>

text \<open>\<open>Math.atan2(y, x)\<close> on reals (the two zeros are not distinguished).\<close>

definition atan2 :: "real \<Rightarrow> real \<Rightarrow> real" where
  "atan2 y x =
     (if 0 < x then arctan (y / x)
      else if x < 0 then (if 0 \<le> y then arctan (y / x) + pi else arctan (y / x) - pi)
      else if 0 < y then pi / 2
      else if y < 0 then - (pi / 2)
      else 0)"

text \<open>The two \<open>while\<close> loops that bring the difference of two angles back to \<open>[-\<pi>, \<pi>]\<close>.\<close>

function lowerAngle :: "real \<Rightarrow> real" where
  "lowerAngle d = (if pi < d then lowerAngle (d - 2 * pi) else d)"
  by pat_completeness auto
termination
proof (relation "measure (\<lambda>d. nat \<lceil>d / (2 * pi)\<rceil>)")
  show "wf (measure (\<lambda>d. nat \<lceil>d / (2 * pi)\<rceil>))" by simp
next
  fix d :: real
  assume d: "pi < d"
  have "(d - 2 * pi) / (2 * pi) = d / (2 * pi) - 1"
    by (simp add: field_simps)
  then have c: "\<lceil>(d - 2 * pi) / (2 * pi)\<rceil> = \<lceil>d / (2 * pi)\<rceil> - 1" by simp
  have "0 < d" using d pi_gt_zero by linarith
  then have "0 < d / (2 * pi)" using pi_gt_zero by simp
  then have "0 < \<lceil>d / (2 * pi)\<rceil>" by linarith
  with c show "(d - 2 * pi, d) \<in> measure (\<lambda>d. nat \<lceil>d / (2 * pi)\<rceil>)" by simp
qed

function raiseAngle :: "real \<Rightarrow> real" where
  "raiseAngle d = (if d < - pi then raiseAngle (d + 2 * pi) else d)"
  by pat_completeness auto
termination
proof (relation "measure (\<lambda>d. nat \<lceil>- (d / (2 * pi))\<rceil>)")
  show "wf (measure (\<lambda>d. nat \<lceil>- (d / (2 * pi))\<rceil>))" by simp
next
  fix d :: real
  assume d: "d < - pi"
  define q where "q = d / (2 * pi)"
  have "(d + 2 * pi) / (2 * pi) = q + 1"
    unfolding q_def by (simp add: field_simps)
  then have "- ((d + 2 * pi) / (2 * pi)) = - q - 1" by simp
  then have "\<lceil>- ((d + 2 * pi) / (2 * pi))\<rceil> = \<lceil>- q - 1\<rceil>" by (rule arg_cong)
  also have "\<dots> = \<lceil>- q\<rceil> - 1" by (rule ceiling_diff_one)
  finally have c: "\<lceil>- ((d + 2 * pi) / (2 * pi))\<rceil> = \<lceil>- (d / (2 * pi))\<rceil> - 1"
    unfolding q_def .
  have "d < 0" using d pi_gt_zero by linarith
  then have "d / (2 * pi) < 0" using pi_gt_zero by (simp add: divide_neg_pos)
  then have "0 < \<lceil>- (d / (2 * pi))\<rceil>" by linarith
  with c show "(d + 2 * pi, d) \<in> measure (\<lambda>d. nat \<lceil>- (d / (2 * pi))\<rceil>)"
    by simp
qed

declare lowerAngle.simps [simp del] raiseAngle.simps [simp del]

definition degenerate :: "real \<Rightarrow> real \<Rightarrow> bool" where
  "degenerate dx dy = (\<bar>dx\<bar> < 1 / 1000 \<and> \<bar>dy\<bar> < 1 / 1000)"

text \<open>One round of the loop of \<open>isSpirialPattern\<close>, at three consecutive positions.\<close>

definition turnAt :: "point \<Rightarrow> point \<Rightarrow> point \<Rightarrow> real \<Rightarrow> real" where
  "turnAt p0 p1 p2 totalAngle =
     (let dx1 = fst p1 - fst p0; dy1 = snd p1 - snd p0;
          dx2 = fst p2 - fst p1; dy2 = snd p2 - snd p1
      in if degenerate dx1 dy1 then totalAngle
         else if degenerate dx2 dy2 then totalAngle
         else
           (let angle1 = atan2 dy1 dx1; angle2 = atan2 dy2 dx2;
                angleDiff = raiseAngle (lowerAngle (angle2 - angle1))
            in totalAngle + \<bar>angleDiff\<bar>))"

fun turningLoop :: "point list \<Rightarrow> real \<Rightarrow> real" where
  "turningLoop (p0 # p1 # p2 # rest) totalAngle =
     turningLoop (p1 # p2 # rest) (turnAt p0 p1 p2 totalAngle)"
| "turningLoop ps totalAngle = totalAngle"

definition isSpirialPattern :: "historyEntry list \<Rightarrow> bool" where
  "isSpirialPattern sequence =
     (if length sequence < 3 then False
      else pi < turningLoop (map h_eyePosition sequence) 0)"

text \<open>\<open>identifyReadingSpirals\<close>: the windows \<open>slice(i, i + 5)\<close> for \<open>i < length - 4\<close>.\<close>

definition identifyReadingSpirals :: "SemanticField \<Rightarrow> historyEntry list list" where
  "identifyReadingSpirals sf =
     (if length (readingHistory sf) < 5 then []
      else filter isSpirialPattern
             (map (\<lambda>i. take 5 (drop i (readingHistory sf)))
                [0 ..< length (readingHistory sf) - 4]))"

text \<open>
  The amended reading of the spiral rule, in the words of the specification: the turning
  angle at an interior point is the absolute value of the difference of the directions
  of the two adjacent segments, taken modulo a full turn into \<open>(-\<pi>, \<pi>]\<close>; an interior point
  with a degenerate adjacent segment contributes nothing.
\<close>

definition wrapAngle :: "real \<Rightarrow> real" where
  "wrapAngle d = d - 2 * pi * real_of_int \<lceil>(d - pi) / (2 * pi)\<rceil>"

definition segmentOf :: "point list \<Rightarrow> nat \<Rightarrow> point" where
  "segmentOf ps i = (fst (ps ! Suc i) - fst (ps ! i), snd (ps ! Suc i) - snd (ps ! i))"

definition turningAngleAt :: "point list \<Rightarrow> nat \<Rightarrow> real" where
  "turningAngleAt ps i =
     (let s1 = segmentOf ps (i - 1); s2 = segmentOf ps i
      in if degenerate (fst s1) (snd s1) \<or> degenerate (fst s2) (snd s2) then 0
         else \<bar>wrapAngle (atan2 (snd s2) (fst s2) - atan2 (snd s1) (fst s1))\<bar>)"

definition windowTurning :: "point list \<Rightarrow> real" where
  "windowTurning ps = turningAngleAt ps 1 + turningAngleAt ps 2 + turningAngleAt ps 3"

section \<open>Degenerate geometry: numbers with NaN and the infinities\<close>

text \<open>
  For the divisions of the direction computations a JavaScript number is a real, one of
  the two infinities, or NaN. Finite arithmetic is exact; a finite non-zero number divided
  by zero is an infinity of its sign, zero divided by zero is NaN, and every operation on
  NaN gives NaN. The two zeros are not distinguished.
\<close>

datatype jsnum = Num real | PosInf | NegInf | NaN

fun jneg :: "jsnum \<Rightarrow> jsnum" where
  "jneg (Num a) = Num (- a)"
| "jneg PosInf = NegInf"
| "jneg NegInf = PosInf"
| "jneg NaN = NaN"

fun jadd :: "jsnum \<Rightarrow> jsnum \<Rightarrow> jsnum" where
  "jadd NaN b = NaN"
| "jadd a NaN = NaN"
| "jadd (Num a) (Num b) = Num (a + b)"
| "jadd (Num a) b = b"
| "jadd a (Num b) = a"
| "jadd PosInf PosInf = PosInf"
| "jadd NegInf NegInf = NegInf"
| "jadd PosInf NegInf = NaN"
| "jadd NegInf PosInf = NaN"

definition jsub :: "jsnum \<Rightarrow> jsnum \<Rightarrow> jsnum" where
  "jsub a b = jadd a (jneg b)"

text \<open>The infinity of the sign of a product or quotient, NaN where a factor is zero.\<close>

definition signedInf :: "real \<Rightarrow> jsnum" where
  "signedInf a = (if a = 0 then NaN else if 0 < a then PosInf else NegInf)"

fun jmul :: "jsnum \<Rightarrow> jsnum \<Rightarrow> jsnum" where
  "jmul NaN b = NaN"
| "jmul a NaN = NaN"
| "jmul (Num a) (Num b) = Num (a * b)"
| "jmul (Num a) PosInf = signedInf a"
| "jmul (Num a) NegInf = signedInf (- a)"
| "jmul PosInf (Num b) = signedInf b"
| "jmul NegInf (Num b) = signedInf (- b)"
| "jmul PosInf PosInf = PosInf"
| "jmul NegInf NegInf = PosInf"
| "jmul PosInf NegInf = NegInf"
| "jmul NegInf PosInf = NegInf"

fun jdiv :: "jsnum \<Rightarrow> jsnum \<Rightarrow> jsnum" where
  "jdiv NaN b = NaN"
| "jdiv a NaN = NaN"
| "jdiv (Num a) (Num b) = (if b = 0 then signedInf a else Num (a / b))"
| "jdiv (Num a) b = Num 0"
| "jdiv PosInf (Num b) = (if 0 \<le> b then PosInf else NegInf)"
| "jdiv NegInf (Num b) = (if 0 \<le> b then NegInf else PosInf)"
| "jdiv a b = NaN"

fun jsqrt :: "jsnum \<Rightarrow> jsnum" where
  "jsqrt (Num a) = (if a < 0 then NaN else Num (sqrt a))"
| "jsqrt PosInf = PosInf"
| "jsqrt NegInf = NaN"
| "jsqrt NaN = NaN"

text \<open>The comparison \<open>a < b\<close>, false whenever an operand is NaN.\<close>

fun jless :: "jsnum \<Rightarrow> jsnum \<Rightarrow> bool" where
  "jless NaN b = False"
| "jless a NaN = False"
| "jless (Num a) (Num b) = (a < b)"
| "jless NegInf NegInf = False"
| "jless NegInf b = True"
| "jless a PosInf = (a \<noteq> PosInf)"
| "jless a b = False"

type_synonym jsvec = "jsnum \<times> jsnum"

text \<open>One round of the loop of \<open>calculateGrowthDirection\<close> over the nearby nodes.\<close>

definition repel :: "node \<Rightarrow> jsvec \<Rightarrow> node \<Rightarrow> jsvec" where
  "repel nd direction nearby =
     (if n_id nearby = n_id nd then direction
      else
        (let dx = jsub (Num (fst (n_position nd))) (Num (fst (n_position nearby)));
             dy = jsub (Num (snd (n_position nd))) (Num (snd (n_position nearby)));
             dist = jsqrt (jadd (jmul dx dx) (jmul dy dy))
         in if jless dist (Num 30)
            then
              (let force = jdiv (jsub (Num 30) dist) (Num 30)
               in (jadd (fst direction) (jmul (jmul (jdiv dx dist) force) (Num (3 / 10))),
                   jadd (snd direction) (jmul (jmul (jdiv dy dist) force) (Num (3 / 10)))))
            else direction))"

definition calculateGrowthDirection :: "node \<Rightarrow> node list \<Rightarrow> jsvec" where
  "calculateGrowthDirection nd nearbyNodes =
     (let direction = foldl (repel nd) (Num (fst (n_velocity nd)), Num (snd (n_velocity nd))) nearbyNodes;
          mag = jsqrt (jadd (jmul (fst direction) (fst direction)) (jmul (snd direction) (snd direction)))
      in (jdiv (fst direction) mag, jdiv (snd direction) mag))"

text \<open>\<open>normalizeVector\<close>, whose division is guarded by \<open>mag > 0\<close>.\<close>

definition normalizeVector :: "jsvec \<Rightarrow> jsvec" where
  "normalizeVector v =
     (let mag = jsqrt (jadd (jmul (fst v) (fst v)) (jmul (snd v) (snd v)))
      in if jless (Num 0) mag then (jdiv (fst v) mag, jdiv (snd v) mag) else (Num 0, Num 0))"

section \<open>The growth engine (class OrganicLayout)\<close>

record growthParams =
  initialEnergy :: real
  energyDecay :: real
  straightPreference :: real
  branchProbability :: real
  intersectionPenalty :: real
  coilingThreshold :: real
  characterSpacing :: real
  lineSpacing :: real
  semanticGravity :: real
  collocationResonance :: real
  interferenceAmplitude :: real
  embodimentFactor :: real
  temporalDecay :: real
  reflexivityDepth :: real

definition defaultParams :: growthParams where
  "defaultParams =
     \<lparr>initialEnergy = 100, energyDecay = 3 / 10, straightPreference = 9 / 10,
      branchProbability = 15 / 100, intersectionPenalty = 50, coilingThreshold = 30,
      characterSpacing = 18, lineSpacing = 20, semanticGravity = 6 / 10,
      collocationResonance = 8 / 10, interferenceAmplitude = 4 / 10, embodimentFactor = 7 / 10,
      temporalDecay = 95 / 100, reflexivityDepth = 1 / 2\<rparr>"

datatype visualType = Primary | Secondary | Tertiary | SemanticBranch

datatype semanticType = Collocation | Similarity | Contrast | Neutral | Exploration

record interference =
  i_amplitude :: real
  i_frequency :: real
  i_phase :: real

text \<open>
  A connection; the branch connections carry no interference. The decorative \<open>resonance\<close>
  is left out.
\<close>

record connection =
  c_from :: nat
  c_to :: nat
  c_type :: visualType
  c_semanticType :: semanticType
  c_curvature :: real
  c_interference :: "interference option"

text \<open>
  A trajectory point with the id, label and position of its two ends, the direction and
  the cognitive state of the parent (timestamp and semantic context left out).
\<close>

record trajectoryPoint =
  t_from :: "nat \<times> jsstring \<times> point"
  t_to :: "nat \<times> jsstring \<times> point"
  t_direction :: point
  t_energy :: real
  t_generation :: nat
  t_curvature :: real

text \<open>
  A collocation field: its intensity and the two positions that its geometry and
  resonance are computed from.
\<close>

record collocationField =
  f_intensity :: real
  f_from :: point
  f_to :: point

datatype emergentPattern =
    SemanticCluster "node list" nat real
  | SemanticBridge connection nat real
  | ReadingSpiral "historyEntry list" nat nat

text \<open>An entry of the self-reflection history: generation, metrics and system state.\<close>

record selfReflection =
  r_generation :: nat
  r_totalNodes :: nat
  r_totalConnections :: nat
  r_emergentPatternCount :: nat
  r_collocationFieldCount :: nat
  r_readingTrajectoryLength :: nat
  r_semanticDensity :: real
  r_visualComplexity :: real
  r_temporalDepth :: nat
  r_cognitiveLoad :: real

record OrganicLayout =
  layoutText :: jsstring
  canvasWidth :: real
  canvasHeight :: real
  nodes :: "node list"
  connections :: "connection list"
  spatialIndex :: SpatialIndex
  growthQueue :: "node list"
  generation :: nat
  isGrowing :: bool
  semanticField :: SemanticField
  collocationFields :: "collocationField list"
  readingTrajectory :: "trajectoryPoint list"
  emergentPatterns :: "emergentPattern list"
  params :: growthParams
  selfReflectionHistory :: "selfReflection list"

text \<open>The constructor, which analyses the text once.\<close>

definition newOrganicLayout :: "hashSimilarity \<Rightarrow> jsstring \<Rightarrow> real \<Rightarrow> real \<Rightarrow> OrganicLayout" where
  "newOrganicLayout hsim txt canvasW canvasH =
     \<lparr>layoutText = txt, canvasWidth = canvasW, canvasHeight = canvasH,
      nodes = [], connections = [], spatialIndex = newSpatialIndex canvasW canvasH 50,
      growthQueue = [], generation = 0, isGrowing = False,
      semanticField = analyzeSemanticStructure hsim newSemanticField txt,
      collocationFields = [], readingTrajectory = [], emergentPatterns = [],
      params = defaultParams, selfReflectionHistory = []\<rparr>"

text \<open>\<open>text[i]\<close>: a string of one code unit, or \<open>undefined\<close> (here the empty string, falsy too).\<close>

definition charAt :: "jsstring \<Rightarrow> nat \<Rightarrow> jsstring" where
  "charAt txt i = (if i < length txt then [txt ! i] else [])"

definition seedCount :: "jsstring \<Rightarrow> nat" where
  "seedCount txt = nat (max 3 \<lfloor>sqrt (real (length txt)) / 5\<rfloor>)"

text \<open>
  \<open>initialize\<close>. The three calls of \<open>Math.random()\<close> for seed \<open>i\<close> (radius, and the angles of
  the two velocity components) are the triple \<open>rnd i\<close>.
\<close>

type_synonym seedRandom = "nat \<Rightarrow> real \<times> real \<times> real"

definition makeSeed :: "OrganicLayout \<Rightarrow> real \<times> real \<times> real \<Rightarrow> nat \<Rightarrow> node" where
  "makeSeed s r i =
     (let n = seedCount (layoutText s);
          angle = (real i / real n) * pi * 2;
          radius = 100 + fst r * 50
      in \<lparr>n_id = length (nodes s),
          n_char = charAt (layoutText s) 0,
          n_position = (canvasWidth s / 2 + cos angle * radius,
                        canvasHeight s / 2 + sin angle * radius),
          n_velocity = (cos (angle + (fst (snd r) - 1 / 2) * (1 / 2)),
                        sin (angle + (snd (snd r) - 1 / 2) * (1 / 2))),
          n_energy = initialEnergy (params s),
          n_generation = 0,
          n_textIndex = i * (length (layoutText s) div n),
          n_parent = None,
          n_curvature = 0\<rparr>)"

definition addSeed :: "seedRandom \<Rightarrow> OrganicLayout \<Rightarrow> nat \<Rightarrow> OrganicLayout" where
  "addSeed rnd s i =
     (let seed = makeSeed s (rnd i) i
      in s\<lparr>nodes := nodes s @ [seed],
           spatialIndex := snd (insert_item (spatialIndex s) (Item seed)),
           growthQueue := growthQueue s @ [seed]\<rparr>)"

definition initialize :: "seedRandom \<Rightarrow> OrganicLayout \<Rightarrow> OrganicLayout" where
  "initialize rnd s = foldl (addSeed rnd) s [0 ..< seedCount (layoutText s)]"

definition start :: "OrganicLayout \<Rightarrow> OrganicLayout" where
  "start s = s\<lparr>isGrowing := True\<rparr>"

definition pause :: "OrganicLayout \<Rightarrow> OrganicLayout" where
  "pause s = s\<lparr>isGrowing := False\<rparr>"

text \<open>\<open>reset\<close> installs a fresh semantic field, which is not analysed again.\<close>

definition reset :: "seedRandom \<Rightarrow> OrganicLayout \<Rightarrow> OrganicLayout" where
  "reset rnd s =
     initialize rnd
       (s\<lparr>nodes := [], connections := [], growthQueue := [], generation := 0,
          isGrowing := False, spatialIndex := clear (spatialIndex s),
          collocationFields := [], readingTrajectory := [], emergentPatterns := [],
          selfReflectionHistory := [], semanticField := newSemanticField\<rparr>)"

subsection \<open>The calculations of a growth step\<close>

definition calculateSemanticCurvature :: "OrganicLayout \<Rightarrow> node \<Rightarrow> node list \<Rightarrow> real" where
  "calculateSemanticCurvature s nd nearbyNodes =
     (let baseCurvature = (initialEnergy (params s) - n_energy nd) / initialEnergy (params s);
          maxCollocation =
            foldl (\<lambda>m nearby. max m (getCollocationStrength (semanticField s) (n_char nd) (n_char nearby)))
              0 nearbyNodes;
          semanticComplexity = getSemanticComplexity (semanticField s) (n_char nd);
          complexityFactor = min 1 (semanticComplexity / 10)
      in baseCurvature + maxCollocation * (3 / 10) + complexityFactor * (2 / 10))"

definition calculateEnergyDecay :: "OrganicLayout \<Rightarrow> node \<Rightarrow> node list \<Rightarrow> real" where
  "calculateEnergyDecay s nd nearbyNodes =
     (let baseDecay = energyDecay (params s);
          cognitiveLoad = calculateCognitiveLoad (semanticField s) nd;
          loadPenalty = cognitiveLoad * (1 / 10);
          collocationBonus =
            foldl (\<lambda>b nearby.
                     b + getCollocationStrength (semanticField s) (n_char nd) (n_char nearby) * (5 / 100))
              0 nearbyNodes
      in max (1 / 10) (baseDecay + loadPenalty - collocationBonus))"

definition checkIntersection :: "node \<Rightarrow> node list \<Rightarrow> bool" where
  "checkIntersection nd nearbyNodes =
     list_ex (\<lambda>nearby. getDistance (n_position nd) (n_position nearby) < 15) nearbyNodes"

definition checkSemanticIntersection :: "OrganicLayout \<Rightarrow> node \<Rightarrow> node list \<Rightarrow> bool" where
  "checkSemanticIntersection s nd nearbyNodes =
     (if checkIntersection nd nearbyNodes then True
      else list_ex (\<lambda>nearby.
             getSemanticDistance (semanticField s) (n_char nd) (n_char nearby) < 3 / 10
             \<and> getDistance (n_position nd) (n_position nearby) < 25) nearbyNodes)"

text \<open>\<open>x % m\<close> for a non-negative \<open>x\<close> and a positive \<open>m\<close>.\<close>

definition jsmod :: "real \<Rightarrow> real \<Rightarrow> real" where
  "jsmod x m = x - m * real_of_int \<lfloor>x / m\<rfloor>"

definition determineConnectionType ::
  "OrganicLayout \<Rightarrow> node \<Rightarrow> node \<Rightarrow> visualType \<times> semanticType \<times> interference" where
  "determineConnectionType s fromNode toNode =
     (let energy = n_energy fromNode;
          semanticDistance = getSemanticDistance (semanticField s) (n_char fromNode) (n_char toNode);
          collocationStrength = getCollocationStrength (semanticField s) (n_char fromNode) (n_char toNode);
          visual = (if coilingThreshold (params s) < energy then Primary
                    else if coilingThreshold (params s) * (1 / 2) < energy then Secondary
                    else Tertiary);
          semantic = (if 7 / 10 < collocationStrength then Collocation
                      else if semanticDistance < 4 / 10 then Similarity
                      else if 8 / 10 < semanticDistance then Contrast
                      else Neutral);
          visualSemanticRatio =
            (1 - semanticDistance) / max (1 / 10) (energy / initialEnergy (params s))
      in (visual, semantic,
          \<lparr>i_amplitude = visualSemanticRatio * interferenceAmplitude (params s),
           i_frequency = collocationStrength * 2 * pi,
           i_phase = jsmod (real (n_generation fromNode + n_generation toNode)) (2 * pi)\<rparr>))"

definition calculateSemanticBranchProbability :: "OrganicLayout \<Rightarrow> node \<Rightarrow> node list \<Rightarrow> real" where
  "calculateSemanticBranchProbability s nd nearbyNodes =
     (let baseProbability = branchProbability (params s);
          semanticComplexity = getSemanticComplexity (semanticField s) (n_char nd);
          complexityBonus = min (3 / 10) (semanticComplexity / 10);
          collocationBonus =
            foldl (\<lambda>b nearby.
                     if 1 / 2 < getCollocationStrength (semanticField s) (n_char nd) (n_char nearby)
                     then b + 1 / 10 else b)
              0 nearbyNodes;
          depthFactor = min 1 (real (length (readingHistory (semanticField s))) / 100)
      in min (8 / 10) (baseProbability + complexityBonus + collocationBonus * depthFactor))"

text \<open>\<open>getNormalizedDirection\<close>, guarded by \<open>mag > 0\<close>, and \<open>dot\<close>.\<close>

definition getNormalizedDirection :: "point \<Rightarrow> point \<Rightarrow> point" where
  "getNormalizedDirection fromPos toPos =
     (let dx = fst toPos - fst fromPos; dy = snd toPos - snd fromPos;
          mag = sqrt (dx * dx + dy * dy)
      in if 0 < mag then (dx / mag, dy / mag) else (0, 0))"

definition dot :: "point \<Rightarrow> point \<Rightarrow> real" where
  "dot v1 v2 = fst v1 * fst v2 + snd v1 * snd v2"

definition calculateSemanticInterest :: "OrganicLayout \<Rightarrow> node \<Rightarrow> point \<Rightarrow> node list \<Rightarrow> real" where
  "calculateSemanticInterest s nd direction nearbyNodes =
     (let angle = atan2 (snd direction) (fst direction);
          interest0 = sin (angle * 3) * (3 / 10);
          interest =
            foldl (\<lambda>acc nearby.
                     let nearbyDir = getNormalizedDirection (n_position nd) (n_position nearby);
                         dirSimilarity = dot direction nearbyDir
                     in if 7 / 10 < dirSimilarity
                        then acc + (1 - getSemanticDistance (semanticField s) (n_char nd) (n_char nearby)) * (4 / 10)
                        else acc)
              interest0 nearbyNodes
      in max 0 interest)"

text \<open>
  The scan of \<open>createSemanticBranch\<close> over the angles \<open>k\<pi>/12\<close>, \<open>k < 24\<close>: the best direction so
  far and its interest, replaced on a strictly greater interest.
\<close>

definition branchAngles :: "real list" where
  "branchAngles = map (\<lambda>k. real k * (pi / 12)) [0 ..< 24]"

definition scanInterest ::
  "OrganicLayout \<Rightarrow> node \<Rightarrow> node list \<Rightarrow> point option \<times> real \<Rightarrow> real \<Rightarrow> point option \<times> real" where
  "scanInterest s parentNode nearbyNodes best angle =
     (let testDir = (cos angle, sin angle);
          interest = calculateSemanticInterest s parentNode testDir nearbyNodes
      in if snd best < interest then (Some testDir, interest) else best)"

definition offsetPosition :: "point \<Rightarrow> point \<Rightarrow> real \<Rightarrow> point" where
  "offsetPosition pos dir spacing = (fst pos + fst dir * spacing, snd pos + snd dir * spacing)"

definition createSemanticBranch ::
  "OrganicLayout \<Rightarrow> node \<Rightarrow> node list \<Rightarrow> OrganicLayout \<times> node option" where
  "createSemanticBranch s parentNode nearbyNodes =
     (case fst (foldl (scanInterest s parentNode nearbyNodes) (None, 0) branchAngles) of
        None \<Rightarrow> (s, None)
      | Some bestDirection \<Rightarrow>
          (let branchNode =
                 \<lparr>n_id = length (nodes s),
                  n_char = charAt (layoutText s) (n_textIndex parentNode + 1),
                  n_position = offsetPosition (n_position parentNode) bestDirection
                                 (characterSpacing (params s)),
                  n_velocity = bestDirection,
                  n_energy = n_energy parentNode * (8 / 10),
                  n_generation = n_generation parentNode + 1,
                  n_textIndex = n_textIndex parentNode + 1,
                  n_parent = Some (n_id parentNode),
                  n_curvature = 0\<rparr>
           in if \<not> checkSemanticIntersection s branchNode nearbyNodes
              then (s\<lparr>nodes := nodes s @ [branchNode],
                      spatialIndex := snd (insert_item (spatialIndex s) (Item branchNode)),
                      connections := connections s @
                        [\<lparr>c_from = n_id parentNode, c_to = n_id branchNode,
                          c_type = SemanticBranch, c_semanticType = Exploration,
                          c_curvature = 3 / 10, c_interference = None\<rparr>]\<rparr>,
                    Some branchNode)
              else (s, None)))"

definition calculateSemanticFreedom :: "OrganicLayout \<Rightarrow> point \<Rightarrow> jsstring \<Rightarrow> node list \<Rightarrow> real" where
  "calculateSemanticFreedom s position label nearbyNodes =
     (let spatialFreedom =
            foldl (\<lambda>f nearby. f * min 1 (getDistance position (n_position nearby) / 30)) 1 nearbyNodes;
          semanticFreedom =
            foldl (\<lambda>f nearby. f * min 1 (getSemanticDistance (semanticField s) label (n_char nearby)))
              1 nearbyNodes
      in (spatialFreedom + semanticFreedom) / 2)"

definition avoidanceAngles :: "real list" where
  "avoidanceAngles = map (\<lambda>k. real k * (pi / 8)) [0 ..< 16]"

definition scanFreedom ::
  "OrganicLayout \<Rightarrow> node \<Rightarrow> node list \<Rightarrow> real option \<times> real \<Rightarrow> real \<Rightarrow> real option \<times> real" where
  "scanFreedom s parentNode nearbyNodes best angle =
     (let testPos = offsetPosition (n_position parentNode) (cos angle, sin angle)
                      (characterSpacing (params s));
          freedom = calculateSemanticFreedom s testPos (n_char parentNode) nearbyNodes
      in if snd best < freedom then (Some angle, freedom) else best)"

definition createSemanticAvoidanceBranch ::
  "OrganicLayout \<Rightarrow> node \<Rightarrow> node list \<Rightarrow> OrganicLayout \<times> node option" where
  "createSemanticAvoidanceBranch s parentNode nearbyNodes =
     (let best = foldl (scanFreedom s parentNode nearbyNodes) (None, 0) avoidanceAngles
      in if fst best \<noteq> None \<and> 3 / 10 < snd best
         then createSemanticBranch s parentNode nearbyNodes
         else (s, None))"

definition visualizeCollocationSensation :: "SemanticField \<Rightarrow> node \<Rightarrow> node list \<Rightarrow> collocationField list" where
  "visualizeCollocationSensation sf nd nearbyNodes =
     map (\<lambda>nearby. \<lparr>f_intensity = getCollocationStrength sf (n_char nd) (n_char nearby),
                     f_from = n_position nd, f_to = n_position nearby\<rparr>)
       (filter (\<lambda>nearby. 1 / 2 < getCollocationStrength sf (n_char nd) (n_char nearby)) nearbyNodes)"

text \<open>\<open>recordReadingTrajectory\<close>: beyond 1000 points the last 800 are kept.\<close>

definition recordReadingTrajectory :: "OrganicLayout \<Rightarrow> node \<Rightarrow> node \<Rightarrow> point \<Rightarrow> OrganicLayout" where
  "recordReadingTrajectory s fromNode toNode direction =
     (let trajectoryPoint =
            \<lparr>t_from = (n_id fromNode, n_char fromNode, n_position fromNode),
             t_to = (n_id toNode, n_char toNode, n_position toNode),
             t_direction = direction,
             t_energy = n_energy fromNode,
             t_generation = n_generation fromNode,
             t_curvature = n_curvature fromNode\<rparr>;
          tr = readingTrajectory s @ [trajectoryPoint]
      in s\<lparr>readingTrajectory := (if 1000 < length tr then drop (length tr - 800) tr else tr)\<rparr>)"

subsection \<open>Emergent patterns and self-reflection\<close>

definition expandCluster ::
  "SemanticField \<Rightarrow> node \<Rightarrow> node list \<Rightarrow> nat list \<Rightarrow> node list \<times> nat list" where
  "expandCluster sf seedNode allNodes visited =
     foldl (\<lambda>acc nd.
              if n_id nd \<in> set (snd acc) then acc
              else if 7 / 10 < 1 - getSemanticDistance sf (n_char seedNode) (n_char nd)
                   then (fst acc @ [nd], snd acc @ [n_id nd])
                   else acc)
       ([seedNode], visited @ [n_id seedNode]) allNodes"

definition identifySemanticClusters :: "SemanticField \<Rightarrow> node list \<Rightarrow> node list list" where
  "identifySemanticClusters sf ns =
     fst (foldl (\<lambda>acc nd.
                   if n_id nd \<in> set (snd acc) then acc
                   else
                     (let r = expandCluster sf nd ns (snd acc)
                      in (if 2 < length (fst r) then fst acc @ [fst r] else fst acc, snd r)))
            ([], []) ns)"

text \<open>
  The decimal digits of an id and the id string \<open>node_k\<close>. \<open>identifySemanticBridges\<close> looks
  up the semantic distance of the two id strings of a connection, its \<open>from\<close> and \<open>to\<close>
  being strings and no objects.
\<close>

function decimalDigits :: "nat \<Rightarrow> jsstring" where
  "decimalDigits k = (if k < 10 then [48 + k] else decimalDigits (k div 10) @ [48 + k mod 10])"
  by pat_completeness auto
termination
  by (relation "measure (\<lambda>k. k)") auto

declare decimalDigits.simps [simp del]

definition nodeIdString :: "nat \<Rightarrow> jsstring" where
  "nodeIdString k = ascii ''node_'' @ decimalDigits k"

definition identifySemanticBridges :: "SemanticField \<Rightarrow> connection list \<Rightarrow> connection list" where
  "identifySemanticBridges sf conns =
     filter (\<lambda>conn.
               let semanticGap = getSemanticDistance sf (nodeIdString (c_from conn)) (nodeIdString (c_to conn))
               in 8 / 10 < semanticGap \<and> semanticGap < 95 / 100)
       conns"

definition arraysOverlap :: "nat list \<Rightarrow> nat list \<Rightarrow> real \<Rightarrow> bool" where
  "arraysOverlap arr1 arr2 threshold =
     (threshold \<le> real (length (filter (\<lambda>x. x \<in> set arr2) arr1)) / real (length (remdups (arr1 @ arr2))))"

definition hasExistingPattern :: "emergentPattern list \<Rightarrow> node list \<Rightarrow> bool" where
  "hasExistingPattern patterns newPattern =
     list_ex (\<lambda>p. case p of
                     SemanticCluster elements g st \<Rightarrow>
                       arraysOverlap (map n_id elements) (map n_id newPattern) (7 / 10)
                   | SemanticBridge c g st \<Rightarrow> False
                   | ReadingSpiral tr g cx \<Rightarrow> False)
       patterns"

text \<open>
  \<open>updateEmergentPatterns\<close>: clusters are added unless they overlap a recorded cluster,
  bridges (whose \<open>semanticGap\<close> is undefined, hence strength 0) and spirals always.
\<close>

definition updateEmergentPatterns :: "OrganicLayout \<Rightarrow> OrganicLayout" where
  "updateEmergentPatterns s =
     (if length (nodes s) < 10 then s
      else
        (let clusters = identifySemanticClusters (semanticField s) (nodes s);
             bridges = identifySemanticBridges (semanticField s) (connections s);
             spirals = identifyReadingSpirals (semanticField s);
             p1 = foldl (\<lambda>ps cluster.
                           if \<not> hasExistingPattern ps cluster
                           then ps @ [SemanticCluster cluster (generation s)
                                        (real (length cluster) / real (length (nodes s)))]
                           else ps)
                    (emergentPatterns s) clusters;
             p2 = p1 @ map (\<lambda>bridge. SemanticBridge bridge (generation s) 0) bridges;
             p3 = p2 @ map (\<lambda>spiral. ReadingSpiral spiral (generation s) (length spiral)) spirals
         in s\<lparr>emergentPatterns := p3\<rparr>))"

definition calculateSemanticDensity :: "OrganicLayout \<Rightarrow> real" where
  "calculateSemanticDensity s =
     (if nodes s = [] then 0
      else real (length (filter (\<lambda>conn. c_semanticType conn \<noteq> Neutral) (connections s)))
             / real (length (nodes s)))"

definition calculateVisualComplexity :: "OrganicLayout \<Rightarrow> real" where
  "calculateVisualComplexity s =
     (if connections s = [] then 0
      else sum_list (map c_curvature (connections s)) / real (length (connections s)))"

definition clampParam :: "real \<Rightarrow> real" where
  "clampParam v = max (1 / 10) (min 1 v)"

definition adaptSystemParameters :: "selfReflection \<Rightarrow> growthParams \<Rightarrow> growthParams" where
  "adaptSystemParameters reflection p =
     (let g = (if 8 / 10 < r_semanticDensity reflection then semanticGravity p * (95 / 100)
               else if r_semanticDensity reflection < 3 / 10 then semanticGravity p * (105 / 100)
               else semanticGravity p);
          a = (if 7 / 10 < r_visualComplexity reflection then interferenceAmplitude p * (9 / 10)
               else if r_visualComplexity reflection < 3 / 10 then interferenceAmplitude p * (11 / 10)
               else interferenceAmplitude p);
          d = (if 8 / 10 < r_cognitiveLoad reflection then energyDecay p * (11 / 10)
               else if r_cognitiveLoad reflection < 3 / 10 then energyDecay p * (9 / 10)
               else energyDecay p)
      in p\<lparr>semanticGravity := clampParam g, interferenceAmplitude := clampParam a,
           energyDecay := clampParam d\<rparr>)"

definition performSelfReflection :: "OrganicLayout \<Rightarrow> OrganicLayout" where
  "performSelfReflection s =
     (let reflection =
            \<lparr>r_generation = generation s,
             r_totalNodes = length (nodes s),
             r_totalConnections = length (connections s),
             r_emergentPatternCount = length (emergentPatterns s),
             r_collocationFieldCount = length (collocationFields s),
             r_readingTrajectoryLength = length (readingTrajectory s),
             r_semanticDensity = calculateSemanticDensity s,
             r_visualComplexity = calculateVisualComplexity s,
             r_temporalDepth = length (readingHistory (semanticField s)),
             r_cognitiveLoad = calculateAverageCognitiveLoad (semanticField s)\<rparr>
      in s\<lparr>selfReflectionHistory := selfReflectionHistory s @ [reflection],
           params := adaptSystemParameters reflection (params s)\<rparr>)"

subsection \<open>The tick\<close>

text \<open>
  The inputs of one turn of the loop of \<open>grow\<close>: the direction returned by \<open>applyCurvature\<close>
  (a cosine and a sine of an angle that \<open>calculateSemanticGrowthDirection\<close>,
  \<open>simulateReadingBody\<close>, \<open>applyInterferencePattern\<close> and a call of \<open>Math.random()\<close>
  determine in floating point), and the value of the call of \<open>Math.random()\<close> that decides
  on a branch.

  The direction is a pair of numbers here. In the source it can also be \<open>(NaN, NaN)\<close>: for a
  neighbour at semantic distance 0, \<open>generateInterferencePattern\<close> divides the spatial
  distance by 0, \<open>normalizeVector\<close> accepts the infinite magnitude and divides infinity by
  infinity. The child of such a turn has the position \<open>NaN\<close>, which no comparison of
  \<open>checkSemanticIntersection\<close> rejects. Positions are reals in this theory, so that turn is
  not represented, and no theorem below bounds the distance of a new node to its neighbours
  for all directions. Ids, parents, energies and generations do not depend on the direction.
\<close>

record growthInput =
  g_curvedDir :: point
  g_random :: real

text \<open>
  One turn of the loop, for the frontier node \<open>nd\<close>, in the order of the source: the node
  literal \<open>newNode\<close>; the connection pushed for an accepted node; the branch taken when the
  intersection test accepts (\<open>acceptGrowth\<close>) and when it rejects (\<open>avoidGrowth\<close>), each
  returning the layout and the new queue; and the turn itself, whose \<open>acc\<close> is the layout
  and \<open>newQueue\<close>.
\<close>

definition growthCandidate :: "growthInput \<Rightarrow> OrganicLayout \<Rightarrow> node \<Rightarrow> node list \<Rightarrow> node" where
  "growthCandidate inp s nd nearbyNodes =
     \<lparr>n_id = length (nodes s),
      n_char = charAt (layoutText s) (n_textIndex nd + 1),
      n_position = offsetPosition (n_position nd) (g_curvedDir inp) (characterSpacing (params s)),
      n_velocity = g_curvedDir inp,
      n_energy = n_energy nd - calculateEnergyDecay s nd nearbyNodes,
      n_generation = n_generation nd + 1,
      n_textIndex = n_textIndex nd + 1,
      n_parent = Some (n_id nd),
      n_curvature = calculateSemanticCurvature s nd nearbyNodes\<rparr>"

definition childConnection :: "OrganicLayout \<Rightarrow> node \<Rightarrow> node \<Rightarrow> connection" where
  "childConnection s nd newNode =
     (let connectionType = determineConnectionType s nd newNode
      in \<lparr>c_from = n_id nd, c_to = n_id newNode,
          c_type = fst connectionType, c_semanticType = fst (snd connectionType),
          c_curvature = n_curvature newNode,
          c_interference = Some (snd (snd connectionType))\<rparr>)"

definition acceptGrowth ::
  "growthInput \<Rightarrow> OrganicLayout \<Rightarrow> node \<Rightarrow> node \<Rightarrow> node list \<Rightarrow> node list
     \<Rightarrow> OrganicLayout \<times> node list" where
  "acceptGrowth inp s nd newNode nearbyNodes newQueue =
     (let s1 = s\<lparr>nodes := nodes s @ [newNode],
                 spatialIndex := snd (insert_item (spatialIndex s) (Item newNode))\<rparr>;
          s2 = s1\<lparr>connections := connections s1 @ [childConnection s1 nd newNode]\<rparr>
      in if g_random inp < calculateSemanticBranchProbability s2 nd nearbyNodes \<and> 50 < n_energy nd
         then
           (let b = createSemanticBranch s2 nd nearbyNodes
            in (fst b, case snd b of
                         None \<Rightarrow> newQueue @ [newNode]
                       | Some branchNode \<Rightarrow> newQueue @ [newNode, branchNode]))
         else (s2, newQueue @ [newNode]))"

definition avoidGrowth ::
  "OrganicLayout \<Rightarrow> node \<Rightarrow> node list \<Rightarrow> node list \<Rightarrow> OrganicLayout \<times> node list" where
  "avoidGrowth s nd nearbyNodes newQueue =
     (let b = createSemanticAvoidanceBranch s nd nearbyNodes
      in (fst b, case snd b of
                   None \<Rightarrow> newQueue
                 | Some avoidanceNode \<Rightarrow> newQueue @ [avoidanceNode]))"

definition growNode :: "growthInput \<Rightarrow> OrganicLayout \<times> node list \<Rightarrow> node \<Rightarrow> OrganicLayout \<times> node list" where
  "growNode inp acc nd =
     (let s = fst acc; newQueue = snd acc
      in if n_energy nd \<le> 0 \<or> int (length (layoutText s)) - 1 \<le> int (n_textIndex nd) then acc
         else
           (let q = query (spatialIndex s) (Some (n_position nd)) 50;
                nearbyNodes = fst q;
                s1 = s\<lparr>spatialIndex := snd q,
                       semanticField := simulateReadingBody (semanticField s) nd\<rparr>;
                newNode = growthCandidate inp s1 nd nearbyNodes;
                s2 = s1\<lparr>collocationFields := collocationFields s1 @
                         visualizeCollocationSensation (semanticField s1) nd nearbyNodes\<rparr>;
                r = (if \<not> checkSemanticIntersection s2 newNode nearbyNodes
                     then acceptGrowth inp s2 nd newNode nearbyNodes newQueue
                     else avoidGrowth s2 nd nearbyNodes newQueue)
            in (recordReadingTrajectory (fst r) nd newNode (g_curvedDir inp), snd r)))"

fun growLoop ::
  "(nat \<Rightarrow> growthInput) \<Rightarrow> nat \<Rightarrow> node list \<Rightarrow> OrganicLayout \<times> node list
     \<Rightarrow> OrganicLayout \<times> node list" where
  "growLoop inputs i [] acc = acc"
| "growLoop inputs i (nd # rest) acc = growLoop inputs (Suc i) rest (growNode (inputs i) acc nd)"

text \<open>\<open>grow\<close>; \<open>inputs i\<close> are the inputs of the turn of the \<open>i\<close>-th node of the frontier.\<close>

definition grow :: "(nat \<Rightarrow> growthInput) \<Rightarrow> OrganicLayout \<Rightarrow> OrganicLayout" where
  "grow inputs s =
     (if \<not> isGrowing s \<or> growthQueue s = [] then s
      else
        (let r = growLoop inputs 0 (growthQueue s) (s, []);
             s1 = updateEmergentPatterns (fst r);
             s2 = (if generation s1 mod 10 = 0 then performSelfReflection s1 else s1)
         in s2\<lparr>growthQueue := snd r, generation := generation s2 + 1\<rparr>))"

subsection \<open>The resource governor (performMemoryOptimization)\<close>

text \<open>
  The part of \<open>performMemoryOptimization\<close> that works on the layout: the oldest nodes
  beyond 1000 are dropped, the connections with a dropped end are removed, the spatial
  index is rebuilt, and trajectory, collocation fields and patterns are cut to their
  newest 500, 200 and 100 entries.
\<close>

definition lastN :: "nat \<Rightarrow> 'a list \<Rightarrow> 'a list" where
  "lastN k xs = (if k < length xs then drop (length xs - k) xs else xs)"

definition performMemoryOptimization :: "OrganicLayout \<Rightarrow> OrganicLayout" where
  "performMemoryOptimization s =
     (let s1 =
            (if 1000 < length (nodes s)
             then
               (let removeCount = length (nodes s) - 1000;
                    removedIds = map n_id (take removeCount (nodes s));
                    kept = drop removeCount (nodes s)
                in s\<lparr>nodes := kept,
                     connections :=
                       filter (\<lambda>conn. c_from conn \<notin> set removedIds \<and> c_to conn \<notin> set removedIds)
                         (connections s),
                     spatialIndex :=
                       foldl (\<lambda>idx nd. snd (insert_item idx (Item nd))) (clear (spatialIndex s)) kept\<rparr>)
             else s)
      in s1\<lparr>readingTrajectory := lastN 500 (readingTrajectory s1),
            collocationFields := lastN 200 (collocationFields s1),
            emergentPatterns := lastN 100 (emergentPatterns s1)\<rparr>)"

subsection \<open>Predicates of the proofs\<close>

text \<open>
  \<open>branchOf\<close>: the layout \<open>s'\<close> is \<open>s\<close> with the branch node \<open>b\<close> of parent \<open>p\<close> and its connection
  \<open>c\<close> pushed. \<open>growEffect\<close> and \<open>loopEffect\<close>: the nodes \<open>added\<close> and connections \<open>cs\<close> pushed by
  one turn of the loop of \<open>grow\<close> for the node \<open>nd\<close>, and by the loop over the nodes \<open>ps\<close>.
  \<open>idsInOrder\<close>: the ids of the node list are \<open>node_0\<close>, \<open>node_1\<close>, ... in this order.
\<close>

definition branchOf :: "OrganicLayout \<Rightarrow> node \<Rightarrow> node list \<Rightarrow> node \<Rightarrow> connection \<Rightarrow> OrganicLayout \<Rightarrow> bool" where
  "branchOf s p nearby b c s' =
     (s' = s\<lparr>nodes := nodes s @ [b],
             spatialIndex := snd (insert_item (spatialIndex s) (Item b)),
             connections := connections s @ [c]\<rparr>
      \<and> n_id b = length (nodes s) \<and> n_parent b = Some (n_id p)
      \<and> n_energy b = n_energy p * (8 / 10) \<and> n_generation b = n_generation p + 1
      \<and> \<not> checkSemanticIntersection s b nearby
      \<and> c_from c = n_id p \<and> c_to c = n_id b)"

definition growEffect :: "OrganicLayout \<Rightarrow> node \<Rightarrow> node list \<Rightarrow> OrganicLayout \<Rightarrow> node list \<Rightarrow> connection list \<Rightarrow> bool" where
  "growEffect s nd nearby s' added cs =
    (nodes s' = nodes s @ added \<and> connections s' = connections s @ cs
     \<and> map n_id added = [length (nodes s) ..< length (nodes s) + length added]
     \<and> (\<forall>c\<in>set cs. \<exists>n\<in>set added. c_from c = n_id nd \<and> c_to c = n_id n
            \<and> n_parent n = Some (n_id nd) \<and> n_energy n \<le> n_energy nd
            \<and> n_generation n = n_generation nd + 1)
     \<and> layoutText s' = layoutText s
     \<and> semanticGraph (semanticField s') = semanticGraph (semanticField s)
     \<and> isGrowing s' = isGrowing s \<and> growthQueue s' = growthQueue s
     \<and> generation s' = generation s)"

definition loopEffect :: "OrganicLayout \<Rightarrow> node list \<Rightarrow> OrganicLayout \<Rightarrow> node list \<Rightarrow> connection list \<Rightarrow> bool" where
  "loopEffect s ps s' added cs =
    (nodes s' = nodes s @ added \<and> connections s' = connections s @ cs
     \<and> map n_id added = [length (nodes s) ..< length (nodes s) + length added]
     \<and> (\<forall>c\<in>set cs. \<exists>p\<in>set ps. \<exists>n\<in>set added. c_from c = n_id p \<and> c_to c = n_id n
            \<and> n_parent n = Some (n_id p) \<and> n_energy n \<le> n_energy p
            \<and> n_generation n = n_generation p + 1)
     \<and> layoutText s' = layoutText s
     \<and> semanticGraph (semanticField s') = semanticGraph (semanticField s)
     \<and> isGrowing s' = isGrowing s \<and> growthQueue s' = growthQueue s
     \<and> generation s' = generation s)"

definition idsInOrder :: "OrganicLayout \<Rightarrow> bool" where
  "idsInOrder s = (map n_id (nodes s) = [0 ..< length (nodes s)])"

section \<open>Concrete inputs\<close>

text \<open>A node with the given id and position, the other fields as \<open>initialize\<close> sets them.\<close>

definition nodeAt :: "nat \<Rightarrow> point \<Rightarrow> node" where
  "nodeAt i pos = \<lparr>n_id = i, n_char = ascii ''a'', n_position = pos, n_velocity = (1, 0),
     n_energy = 100, n_generation = 0, n_textIndex = 0, n_parent = None, n_curvature = 0\<rparr>"

text \<open>The index of an 800 by 600 canvas with cells of 50, as \<open>OrganicLayout\<close> builds it.\<close>

definition canvasIndex :: SpatialIndex where
  "canvasIndex = newSpatialIndex 800 600 50"

definition twoNodeIndex :: SpatialIndex where
  "twoNodeIndex =
     snd (insert_item (snd (insert_item canvasIndex (Item (nodeAt 0 (130, 100)))))
            (Item (nodeAt 1 (110, 100))))"

text \<open>The stored similarities of a semantic graph lie in \<open>(0.3, 1]\<close>.\<close>

definition graphBounded :: "(jsstring \<times> (jsstring \<times> real) list) list \<Rightarrow> bool" where
  "graphBounded g =
     (\<forall>w c v s. map_of g w = Some c \<longrightarrow> map_of c v = Some s \<longrightarrow> 3 / 10 < s \<and> s \<le> 1)"

text \<open>
  Two words of equal hash have the same embedding, and the cosine of a non-zero vector
  with itself is 1.
\<close>

definition sameHashSimilarity :: hashSimilarity where
  "sameHashSimilarity h1 h2 = (if h1 = h2 then 1 else 0)"

text \<open>Windows of five reading-history entries, given by their eye positions.\<close>

definition entryAt :: "point \<Rightarrow> historyEntry" where
  "entryAt p = \<lparr>h_node = 0, h_eyePosition = p, h_cognitiveLoad = 0\<rparr>"

definition straightWindow :: "historyEntry list" where
  "straightWindow = map entryAt [(0, 0), (10, 0), (20, 0), (30, 0), (40, 0)]"

text \<open>Five points of the upper half of the circle of radius 100 about the origin.\<close>

definition halfCircleWindow :: "historyEntry list" where
  "halfCircleWindow = map entryAt [(100, 0), (80, 60), (0, 100), (- 80, 60), (- 100, 0)]"

text \<open>
  A text of 400 code units, the words \<open>ba\<close>, \<open>a\<close>, \<open>a\<close> followed by spaces: four seeds. The
  calls of \<open>Math.random()\<close> of \<open>initialize\<close> return 0 (radius 100) and one half (velocity
  along the ray of the seed).
\<close>

definition text400 :: jsstring where
  "text400 = ascii ''ba a a'' @ replicate 394 32"

definition seedRandom0 :: seedRandom where
  "seedRandom0 i = (0, 1 / 2, 1 / 2)"

definition freshLayout :: OrganicLayout where
  "freshLayout = newOrganicLayout sameHashSimilarity text400 800 600"

definition seededLayout :: OrganicLayout where
  "seededLayout = start (initialize seedRandom0 freshLayout)"

text \<open>The seed \<open>i\<close> of \<open>seededLayout\<close>, at position \<open>pos\<close> with velocity \<open>vel\<close>.\<close>

definition seedNode :: "nat \<Rightarrow> point \<Rightarrow> point \<Rightarrow> node" where
  "seedNode i pos vel = \<lparr>n_id = i, n_char = [98], n_position = pos, n_velocity = vel,
     n_energy = 100, n_generation = 0, n_textIndex = i * 100, n_parent = None, n_curvature = 0\<rparr>"

text \<open>
  The inputs of a tick: every turn grows along the unit vector \<open>(0.8, 0.6)\<close>, and the call of
  \<open>Math.random()\<close> that decides on a branch returns 0. Then the child and the branch that
  the turn of seed 0 creates.
\<close>

definition tickInputs :: "nat \<Rightarrow> growthInput" where
  "tickInputs i = \<lparr>g_curvedDir = (4 / 5, 3 / 5), g_random = 0\<rparr>"

definition childNode0 :: node where
  "childNode0 = \<lparr>n_id = 4, n_char = [97], n_position = (2572 / 5, 1554 / 5),
     n_velocity = (4 / 5, 3 / 5), n_energy = 99633 / 1000, n_generation = 1, n_textIndex = 1,
     n_parent = Some 0, n_curvature = 1 / 50\<rparr>"

definition branchNode0 :: node where
  "branchNode0 = \<lparr>n_id = 5, n_char = [97],
     n_position = (500 + cos (pi / 6) * 18, 300 + sin (pi / 6) * 18),
     n_velocity = (cos (pi / 6), sin (pi / 6)), n_energy = 80, n_generation = 1, n_textIndex = 1,
     n_parent = Some 0, n_curvature = 0\<rparr>"

text \<open>A layout whose node list has grown to 1001 nodes, \<open>node_0\<close> to \<open>node_1000\<close>.\<close>

definition crowdedLayout :: OrganicLayout where
  "crowdedLayout = freshLayout\<lparr>nodes := map (\<lambda>k. nodeAt k (400, 300)) [0 ..< 1001]\<rparr>"


section \<open>Proofs: evaluation helpers\<close>

lemma ceil_1_5000: "\<lceil>(1::real) / 5000\<rceil> = 1"
  by (simp add: ceiling_eq_iff)

lemma ceil_1_5: "\<lceil>(1::real) / 5\<rceil> = 1"
  by (simp add: ceiling_eq_iff)

lemma upto_m1_1: "[- 1 .. (1::int)] = [- 1, 0, 1]"
  by (simp add: upto.simps)

lemma sqrt_le_iff: "0 \<le> c \<Longrightarrow> sqrt x \<le> c \<longleftrightarrow> x \<le> c * c"
  by (metis abs_of_nonneg real_sqrt_abs2 real_sqrt_le_iff)

lemma sqrt_less_iff: "0 \<le> c \<Longrightarrow> sqrt x < c \<longleftrightarrow> x < c * c"
  by (metis abs_of_nonneg real_sqrt_abs2 real_sqrt_less_iff)

lemma canvasIndex_eq:
  "canvasIndex = \<lparr>width = 800, height = 600, cellSize = 50, gridWidth = 16, gridHeight = 12,
      grid = [], itemCount = 0, queryCache = [], maxCacheSize = 1000\<rparr>"
  by (simp add: canvasIndex_def newSpatialIndex_def orDefault_def Let_def)

lemmas index_eval =
  insert_item_def findItemById_def getGridKey_def cellItems_def clearQueryCache_def
  nodeAt_def query_def toFixed1_def scanGrid_def scanCell_def Let_def getDistance_def
  upto_m1_1

section \<open>Proofs: the spatial grid index\<close>

lemma removeFromCells_zero:
  "snd (removeFromCells i g) = 0 \<Longrightarrow> fst (removeFromCells i g) = g"
proof (induction g)
  case Nil
  then show ?case by simp
next
  case (Cons c g)
  obtain key items where c: "c = (key, items)" by (cases c)
  let ?kept = "filter (\<lambda>item. n_id item \<noteq> i) items"
  have "snd (removeFromCells i (c # g)) = (length items - length ?kept) + snd (removeFromCells i g)"
    using c by (simp add: Let_def)
  with Cons.prems have "(length items - length ?kept) + snd (removeFromCells i g) = 0"
    by metis
  moreover have le: "length ?kept \<le> length items" by simp
  ultimately have k0: "length items - length ?kept = 0" and r0: "snd (removeFromCells i g) = 0"
    by linarith+
  with le have "length ?kept = length items" by linarith
  then have "?kept = items"
    by (metis filter_id_conv length_filter_less less_irrefl_nat)
  with Cons.IH r0 c k0 show ?case by (simp add: Let_def)
qed

lemma remove_item_params:
  "cellSize (snd (remove_item idx i)) = cellSize idx"
  "gridWidth (snd (remove_item idx i)) = gridWidth idx"
  "gridHeight (snd (remove_item idx i)) = gridHeight idx"
  "maxCacheSize (snd (remove_item idx i)) = maxCacheSize idx"
  by (simp_all add: remove_item_def clearQueryCache_def Let_def)

lemma insert_item_params:
  "cellSize (snd (insert_item idx a)) = cellSize idx"
  "gridWidth (snd (insert_item idx a)) = gridWidth idx"
  "gridHeight (snd (insert_item idx a)) = gridHeight idx"
  by (cases a; simp add: insert_item_def clearQueryCache_def Let_def remove_item_params)+

text \<open>Every mutation that succeeds leaves the query cache empty.\<close>

lemma insert_item_cache:
  "fst (insert_item idx a) \<Longrightarrow> queryCache (snd (insert_item idx a)) = []"
  by (cases a) (simp_all add: insert_item_def clearQueryCache_def Let_def)

lemma remove_item_cache:
  "fst (remove_item idx i) \<Longrightarrow> queryCache (snd (remove_item idx i)) = []"
  by (simp add: remove_item_def clearQueryCache_def Let_def)

lemma update_item_cache:
  "fst (update_item idx a) \<Longrightarrow> queryCache (snd (update_item idx a)) = []"
  by (cases a) (simp_all add: update_item_def insert_item_cache)

lemma clear_cache: "queryCache (clear idx) = []"
  by (simp add: clear_def clearQueryCache_def)

lemma query_uncached:
  "queryCache idx = [] \<Longrightarrow> 0 \<le> radius \<Longrightarrow>
     fst (query idx (Some position) radius) = scanGrid idx position radius"
  by (simp add: query_def Let_def)

lemma cellItems_update: "cellItems (AList.update key v g) key = v"
  by (simp add: cellItems_def update_conv')

lemma insert_item_stored:
  "n \<in> set (cellItems (grid (snd (insert_item idx (Item n))))
       (getGridKey idx (fst (n_position n)) (snd (n_position n))))"
  by (simp add: insert_item_def clearQueryCache_def Let_def cellItems_update getGridKey_def
      remove_item_params)

lemma scanGrid_center:
  assumes "0 \<le> \<lceil>radius / cellSize idx\<rceil>"
    and "n \<in> set (scanCell idx position radius
                  \<lfloor>fst position / cellSize idx\<rfloor> \<lfloor>snd position / cellSize idx\<rfloor>)"
  shows "n \<in> set (scanGrid idx position radius)"
proof -
  let ?g = "\<lceil>radius / cellSize idx\<rceil>"
  have "(0::int) \<in> set [- ?g .. ?g]" using assms(1) by simp
  then show ?thesis using assms(2) unfolding scanGrid_def Let_def
    by (auto intro!: bexI[where x=0])
qed

text \<open>
  Where the cell of the position lies inside the grid, so that \<open>getGridKey\<close> clamps nothing,
  a node is found by a query at its own position right after its insertion.
\<close>

lemma insert_then_query_in_grid:
  assumes cs: "0 < cellSize idx" and r: "0 \<le> radius"
    and x: "0 \<le> \<lfloor>fst (n_position n) / cellSize idx\<rfloor>"
           "\<lfloor>fst (n_position n) / cellSize idx\<rfloor> < gridWidth idx"
    and y: "0 \<le> \<lfloor>snd (n_position n) / cellSize idx\<rfloor>"
           "\<lfloor>snd (n_position n) / cellSize idx\<rfloor> < gridHeight idx"
  shows "n \<in> set (fst (query (snd (insert_item idx (Item n))) (Some (n_position n)) radius))"
proof -
  let ?idx' = "snd (insert_item idx (Item n))"
  let ?gx = "\<lfloor>fst (n_position n) / cellSize idx\<rfloor>"
  let ?gy = "\<lfloor>snd (n_position n) / cellSize idx\<rfloor>"
  have key: "getGridKey idx (fst (n_position n)) (snd (n_position n)) = (?gx, ?gy)"
    using x y by (simp add: getGridKey_def Let_def)
  have stored: "n \<in> set (cellItems (grid ?idx') (?gx, ?gy))"
    using insert_item_stored[of n idx] key by simp
  have d0: "getDistance (n_position n) (n_position n) = 0" by (simp add: getDistance_def)
  have cell: "n \<in> set (scanCell ?idx' (n_position n) radius ?gx ?gy)"
    using stored x y r d0 by (simp add: scanCell_def insert_item_params)
  have "0 \<le> radius / cellSize idx" using cs r by simp
  then have g0: "0 \<le> \<lceil>radius / cellSize ?idx'\<rceil>" by (simp add: insert_item_params)
  have "n \<in> set (scanGrid ?idx' (n_position n) radius)"
    using scanGrid_center[of radius ?idx' n "n_position n"] g0 cell
    by (simp add: insert_item_params)
  moreover have "queryCache ?idx' = []"
    by (rule insert_item_cache) (simp add: insert_item_def Let_def)
  ultimately show ?thesis using r by (simp add: query_uncached)
qed

text \<open>
  Claim C2. A node accepted by \<open>insert\<close> should be returned by \<open>query(node.position, 0.01)\<close>
  right after, also outside the canvas. At the position \<open>(-100, -100)\<close> of an 800 by 600
  index with cells of 50, \<open>insert\<close> returns true, having clamped the node into cell \<open>(0, 0)\<close>,
  and the query, which scans the cells \<open>-3 .. -1\<close> around the unclamped cell \<open>-2\<close> and skips
  each of them as out of bounds, returns the empty list.
\<close>

theorem insert_then_query_outside_grid:
  "fst (insert_item canvasIndex (Item (nodeAt 0 (- 100, - 100)))) \<and>
   fst (query (snd (insert_item canvasIndex (Item (nodeAt 0 (- 100, - 100)))))
          (Some (n_position (nodeAt 0 (- 100, - 100)))) (1 / 100)) = []"
  by (simp add: canvasIndex_eq index_eval ceil_1_5000)

text \<open>
  Claim C9. A mutation empties the query cache (the four lemmas on \<open>queryCache\<close> above), yet
  the next identical query need not see the inserted node. A query of radius 10 at
  \<open>(-100, -100)\<close> returns the empty list; a node is then inserted at that very position,
  which empties the cache; the same query returns the empty list again, for the reason
  of claim C2.
\<close>

theorem query_unchanged_by_insert_outside_grid:
  "fst (query canvasIndex (Some (- 100, - 100)) 10) = []
   \<and> fst (insert_item (snd (query canvasIndex (Some (- 100, - 100)) 10))
            (Item (nodeAt 0 (- 100, - 100))))
   \<and> queryCache (snd (insert_item (snd (query canvasIndex (Some (- 100, - 100)) 10))
            (Item (nodeAt 0 (- 100, - 100))))) = []
   \<and> getDistance (n_position (nodeAt 0 (- 100, - 100))) (- 100, - 100) \<le> 10
   \<and> fst (query (snd (insert_item (snd (query canvasIndex (Some (- 100, - 100)) 10))
                     (Item (nodeAt 0 (- 100, - 100)))))
            (Some (- 100, - 100)) 10) = []"
  by (simp add: canvasIndex_eq index_eval ceil_1_5)

lemma nearestLoop_spec:
  "nearestLoop p cs (a, b) = (a', b') \<Longrightarrow>
     (\<forall>c\<in>set cs. \<not> belowBound (getDistance (n_position c) p) b') \<and>
     ((a' = a \<and> b' = b) \<or>
      (\<exists>n\<in>set cs. a' = Some n \<and> b' = Some (getDistance (n_position n) p)
          \<and> belowBound (getDistance (n_position n) p) b))"
proof (induction cs arbitrary: a b)
  case Nil
  then show ?case by simp
next
  case (Cons item rest)
  let ?d = "getDistance (n_position item) p"
  show ?case
  proof (cases "belowBound ?d b")
    case True
    with Cons.prems have "nearestLoop p rest (Some item, Some ?d) = (a', b')"
      by (simp add: Let_def)
    from Cons.IH[OF this] True show ?thesis
      by (cases b) (auto simp: belowBound_def)
  next
    case False
    with Cons.prems have "nearestLoop p rest (a, b) = (a', b')"
      by (simp add: Let_def)
    from Cons.IH[OF this] False show ?thesis
      by (cases b) (auto simp: belowBound_def)
  qed
qed

text \<open>
  Claim C5, as the code has it. The candidates of \<open>findNearest\<close> are the result of one
  query whose radius is the smaller of \<open>maxDistance\<close> and \<open>max(cellSize, 50)\<close>; the radius is
  never widened. The function returns a candidate strictly closer than \<open>maxDistance\<close> and
  no farther than any other candidate, and returns none exactly when no candidate is
  strictly closer than \<open>maxDistance\<close>.
\<close>

theorem findNearest_closest_candidate:
  "case fst (findNearest idx p m) of
     None \<Rightarrow> \<forall>c\<in>set (fst (query idx (Some p) (searchRadius idx m))).
                \<not> belowBound (getDistance (n_position c) p) m
   | Some n \<Rightarrow> n \<in> set (fst (query idx (Some p) (searchRadius idx m)))
              \<and> belowBound (getDistance (n_position n) p) m
              \<and> (\<forall>c\<in>set (fst (query idx (Some p) (searchRadius idx m))).
                    getDistance (n_position n) p \<le> getDistance (n_position c) p)"
proof -
  let ?cs = "fst (query idx (Some p) (searchRadius idx m))"
  obtain a' b' where r: "nearestLoop p ?cs (None, m) = (a', b')"
    by (cases "nearestLoop p ?cs (None, m)")
  have f: "fst (findNearest idx p m) = a'"
    using r by (simp add: findNearest_def Let_def)
  from nearestLoop_spec[OF r] show ?thesis unfolding f
    by (cases a') (auto simp: belowBound_def)
qed

text \<open>
  Witness: two nodes 30 and 10 units from the position, both inside the query radius of 50;
  the nearer one is returned.
\<close>

theorem findNearest_closest_candidate_witness:
  "fst (findNearest twoNodeIndex (100, 100) (Some 200)) = Some (nodeAt 1 (110, 100))
   \<and> nodeAt 0 (130, 100)
        \<in> set (fst (query twoNodeIndex (Some (100, 100)) (searchRadius twoNodeIndex (Some 200))))
   \<and> nodeAt 1 (110, 100)
        \<in> set (fst (query twoNodeIndex (Some (100, 100)) (searchRadius twoNodeIndex (Some 200))))
   \<and> belowBound (getDistance (n_position (nodeAt 1 (110, 100))) (100, 100)) (Some 200)
   \<and> getDistance (n_position (nodeAt 1 (110, 100))) (100, 100)
        \<le> getDistance (n_position (nodeAt 0 (130, 100))) (100, 100)"
proof -
  have n: "fst (findNearest twoNodeIndex (100, 100) (Some 200)) = Some (nodeAt 1 (110, 100))"
    by (simp add: twoNodeIndex_def canvasIndex_eq index_eval findNearest_def searchRadius_def
        sqrt_le_iff sqrt_less_iff belowBound_def)
  have q: "fst (query twoNodeIndex (Some (100, 100)) (searchRadius twoNodeIndex (Some 200)))
       = [nodeAt 0 (130, 100), nodeAt 1 (110, 100)]"
    by (simp add: twoNodeIndex_def canvasIndex_eq index_eval searchRadius_def sqrt_le_iff)
  from findNearest_closest_candidate[of twoNodeIndex "(100, 100)" "Some 200"] n q
  show ?thesis by simp
qed

text \<open>
  Claim C5 as stated fails: a node 100 units from the position, inside \<open>maxDistance = 200\<close>,
  is in the index, and \<open>findNearest\<close> returns none, its query radius being 50.
\<close>

theorem findNearest_misses_item_within_maxDistance:
  "fst (findNearest (snd (insert_item canvasIndex (Item (nodeAt 0 (200, 100)))))
          (100, 100) (Some 200)) = None
   \<and> findItemById (snd (insert_item canvasIndex (Item (nodeAt 0 (200, 100))))) 0
        = Some (nodeAt 0 (200, 100))
   \<and> getDistance (n_position (nodeAt 0 (200, 100))) (100, 100) \<le> 200"
  by (simp add: canvasIndex_eq index_eval findNearest_def searchRadius_def sqrt_le_iff)

section \<open>Proofs: the semantic force field\<close>

lemma graphBounded_add:
  "graphBounded g \<Longrightarrow> 3 / 10 < s \<Longrightarrow> s \<le> 1 \<Longrightarrow> graphBounded (addSemanticConnection g w v s)"
  unfolding graphBounded_def addSemanticConnection_def Let_def
  by (auto simp: update_conv' split: option.splits if_splits)

lemma graphBounded_connectWord:
  assumes h: "\<And>a b. hsim a b \<le> 1"
  shows "graphBounded g \<Longrightarrow> graphBounded (connectWord hsim w vs g)"
proof (induction vs arbitrary: g)
  case Nil
  then show ?case by simp
next
  case (Cons v vs)
  let ?s = "wordSimilarity hsim w v"
  have le: "?s \<le> 1" using h by (simp add: wordSimilarity_def)
  show ?case
  proof (cases "3 / 10 < ?s")
    case True
    with Cons.prems le have "graphBounded (addSemanticConnection g w v ?s)"
      by (intro graphBounded_add)
    from Cons.IH[OF this] True show ?thesis by (simp add: Let_def)
  next
    case False
    with Cons.IH[OF Cons.prems] show ?thesis by (simp add: Let_def)
  qed
qed

lemma graphBounded_connectWords:
  assumes h: "\<And>a b. hsim a b \<le> 1"
  shows "graphBounded g \<Longrightarrow> graphBounded (connectWords hsim ws g)"
proof (induction ws arbitrary: g)
  case Nil
  then show ?case by simp
next
  case (Cons w ws)
  from Cons.prems have "graphBounded (connectWord hsim w ws g)"
    by (rule graphBounded_connectWord[OF h])
  from Cons.IH[OF this] show ?case by simp
qed

lemma getSemanticDistance_range:
  assumes h: "\<And>a b. hsim a b \<le> 1"
  shows "0 \<le> getSemanticDistance (analyzeSemanticStructure hsim newSemanticField txt) a b
       \<and> getSemanticDistance (analyzeSemanticStructure hsim newSemanticField txt) a b \<le> 1"
proof -
  have "graphBounded []" by (simp add: graphBounded_def)
  then have "graphBounded (connectWords hsim (tokenize txt) [])"
    by (rule graphBounded_connectWords[OF h])
  then have "graphBounded (semanticGraph (analyzeSemanticStructure hsim newSemanticField txt))"
    by (simp add: analyzeSemanticStructure_def Let_def newSemanticField_def)
  then show ?thesis
    unfolding graphBounded_def getSemanticDistance_def
    by (fastforce split: option.splits)
qed

lemma getSemanticDistance_unrecorded:
  "(case map_of (semanticGraph sf) a of None \<Rightarrow> None | Some c \<Rightarrow> map_of c b) = None
     \<Longrightarrow> getSemanticDistance sf a b = 1"
  by (auto simp: getSemanticDistance_def split: option.splits)

lemma hash_Aa: "simpleHash (ascii ''Aa'') = 2112" 
  by (simp add: simpleHash_def ascii_def toInt32_def)
lemma hash_BB: "simpleHash (ascii ''BB'') = 2112" 
  by (simp add: simpleHash_def ascii_def toInt32_def)
lemma tokenize_Aa_BB: "tokenize (ascii ''Aa BB'') = [ascii ''Aa'', ascii ''BB'']"
  by (simp add: tokenize_def ascii_def isDelimiter_def)

text \<open>
  Claim C4. The distance lies in \<open>[0, 1]\<close> and is 1 for an unrecorded pair (the two lemmas
  above), yet it is not symmetric: \<open>addSemanticConnection\<close> records a pair under its first
  word only, and every pair is visited once, with the earlier word first. The words \<open>Aa\<close>
  and \<open>BB\<close> have the same hash 2112, hence the same embedding; whenever the similarity of
  that embedding with itself exceeds 0.3, the text \<open>Aa BB\<close> gives the distance from \<open>Aa\<close>
  to \<open>BB\<close> as one minus that similarity and from \<open>BB\<close> to \<open>Aa\<close> as 1.
\<close>

theorem semanticDistance_one_direction:
  assumes "3 / 10 < hsim 2112 2112"
  shows "getSemanticDistance (analyzeSemanticStructure hsim newSemanticField (ascii ''Aa BB''))
           (ascii ''Aa'') (ascii ''BB'') = 1 - hsim 2112 2112
       \<and> getSemanticDistance (analyzeSemanticStructure hsim newSemanticField (ascii ''Aa BB''))
           (ascii ''BB'') (ascii ''Aa'') = 1"
  using assms
  by (simp add: analyzeSemanticStructure_def tokenize_Aa_BB Let_def newSemanticField_def
      wordSimilarity_def hash_Aa hash_BB addSemanticConnection_def getSemanticDistance_def)
     (simp add: ascii_def)

theorem semanticDistance_one_direction_witness:
  "(3 :: real) / 10 < sameHashSimilarity 2112 2112
   \<and> getSemanticDistance (analyzeSemanticStructure sameHashSimilarity newSemanticField (ascii ''Aa BB''))
        (ascii ''Aa'') (ascii ''BB'') = 0
   \<and> getSemanticDistance (analyzeSemanticStructure sameHashSimilarity newSemanticField (ascii ''Aa BB''))
        (ascii ''BB'') (ascii ''Aa'') = 1"
proof -
  have h: "(3 :: real) / 10 < sameHashSimilarity 2112 2112"
    by (simp add: sameHashSimilarity_def)
  from semanticDistance_one_direction[of sameHashSimilarity, OF h] h show ?thesis
    by (simp add: sameHashSimilarity_def)
qed

subsection \<open>Spirals\<close>

lemma lowerAngle_id: "d \<le> pi \<Longrightarrow> lowerAngle d = d"
  by (subst lowerAngle.simps) simp

lemma raiseAngle_id: "- pi \<le> d \<Longrightarrow> raiseAngle d = d"
  by (subst raiseAngle.simps) simp

lemma raiseAngle_step: "d < - pi \<Longrightarrow> raiseAngle d = raiseAngle (d + 2 * pi)"
  by (subst raiseAngle.simps) simp

lemma lowerAngle_step: "pi < d \<Longrightarrow> lowerAngle d = lowerAngle (d - 2 * pi)"
  by (subst lowerAngle.simps) simp

lemma lowerAngle_spec:
  "lowerAngle d \<le> pi \<and> (\<exists>k::int. lowerAngle d = d - 2 * pi * real_of_int k)
     \<and> (pi < d \<longrightarrow> - pi < lowerAngle d)"
proof (induction d rule: lowerAngle.induct)
  case (1 d)
  show ?case
  proof (cases "pi < d")
    case False
    then have "lowerAngle d = d" by (simp add: lowerAngle_id)
    moreover have "d = d - 2 * pi * real_of_int 0" by simp
    ultimately show ?thesis using False by (auto intro: exI[of _ 0])
  next
    case True
    note ih = 1[OF True]
    have eq: "lowerAngle d = lowerAngle (d - 2 * pi)" using True by (rule lowerAngle_step)
    from ih obtain k :: int where k: "lowerAngle (d - 2 * pi) = d - 2 * pi - 2 * pi * real_of_int k"
      by blast
    have "lowerAngle d = d - 2 * pi * real_of_int (k + 1)"
      using eq k by (simp add: algebra_simps)
    moreover have "- pi < lowerAngle d"
    proof (cases "pi < d - 2 * pi")
      case True
      with ih eq show ?thesis by simp
    next
      case False
      then have "lowerAngle (d - 2 * pi) = d - 2 * pi" by (simp add: lowerAngle_id)
      with eq True show ?thesis by simp
    qed
    moreover have "lowerAngle d \<le> pi" using ih eq by simp
    ultimately show ?thesis by blast
  qed
qed

lemma raiseAngle_spec:
  "- pi \<le> raiseAngle d \<and> (\<exists>k::int. raiseAngle d = d - 2 * pi * real_of_int k)
     \<and> (d < - pi \<longrightarrow> raiseAngle d < pi) \<and> (- pi \<le> d \<longrightarrow> raiseAngle d = d)"
proof (induction d rule: raiseAngle.induct)
  case (1 d)
  show ?case
  proof (cases "d < - pi")
    case False
    then have "raiseAngle d = d" by (simp add: raiseAngle_id)
    moreover have "d = d - 2 * pi * real_of_int 0" by simp
    ultimately show ?thesis using False by (auto intro: exI[of _ 0])
  next
    case True
    note ih = 1[OF True]
    have eq: "raiseAngle d = raiseAngle (d + 2 * pi)" using True by (rule raiseAngle_step)
    from ih obtain k :: int where k: "raiseAngle (d + 2 * pi) = d + 2 * pi - 2 * pi * real_of_int k"
      by blast
    have "raiseAngle d = d - 2 * pi * real_of_int (k - 1)"
      using eq k by (simp add: algebra_simps)
    then have ex: "\<exists>k::int. raiseAngle d = d - 2 * pi * real_of_int k" by blast
    have "raiseAngle d < pi"
    proof (cases "d + 2 * pi < - pi")
      case True
      with ih eq show ?thesis by simp
    next
      case False
      then have "raiseAngle (d + 2 * pi) = d + 2 * pi" by (simp add: raiseAngle_id)
      with eq True show ?thesis by simp
    qed
    moreover have "- pi \<le> raiseAngle d" using ih eq by simp
    ultimately show ?thesis using True ex by simp
  qed
qed

lemma wrapAngle_range: "- pi < wrapAngle d \<and> wrapAngle d \<le> pi"
proof -
  let ?q = "(d - pi) / (2 * pi)"
  have c: "real_of_int \<lceil>?q\<rceil> - 1 < ?q \<and> ?q \<le> real_of_int \<lceil>?q\<rceil>" by linarith
  have p: "0 < 2 * pi" using pi_gt_zero by simp
  have e: "?q * (2 * pi) = d - pi" using p by simp
  from c have "(real_of_int \<lceil>?q\<rceil> - 1) * (2 * pi) < ?q * (2 * pi)"
    using p by (simp del: times_divide_eq_left)
  moreover from c have "?q * (2 * pi) \<le> real_of_int \<lceil>?q\<rceil> * (2 * pi)"
    using p by (simp del: times_divide_eq_left)
  ultimately show ?thesis unfolding e wrapAngle_def by (simp add: algebra_simps)
qed

lemma abs_representative:
  assumes r: "- pi \<le> r" "r \<le> pi" and w: "- pi < w" "w \<le> pi"
    and k: "r = w - 2 * pi * real_of_int k"
  shows "\<bar>r\<bar> = \<bar>w\<bar>"
proof -
  have p: "0 < pi" by (rule pi_gt_zero)
  have "k = 0 \<or> k \<ge> 1 \<or> k \<le> - 1" by linarith
  then show ?thesis
  proof (elim disjE)
    assume "k = 0" with k show ?thesis by simp
  next
    assume k1: "k \<ge> 1"
    then have "real_of_int k \<ge> 1" by simp
    then have "2 * pi * real_of_int k \<ge> 2 * pi * 1" using p by (intro mult_left_mono) simp_all
    with k have "r \<le> w - 2 * pi" by simp
    with r w have "r = - pi \<and> w = pi" by linarith
    then show ?thesis by simp
  next
    assume k1: "k \<le> - 1"
    then have "real_of_int k \<le> - 1" by linarith
    then have "2 * pi * real_of_int k \<le> 2 * pi * (- 1)" using p by (intro mult_left_mono) simp_all
    with k have "r \<ge> w + 2 * pi" by simp
    with r w p show ?thesis by linarith
  qed
qed

lemma normalise_abs: "\<bar>raiseAngle (lowerAngle d)\<bar> = \<bar>wrapAngle d\<bar>"
proof -
  let ?e = "lowerAngle d" and ?r = "raiseAngle (lowerAngle d)"
  from lowerAngle_spec[of d] obtain k1 :: int where
    e: "?e \<le> pi" "?e = d - 2 * pi * real_of_int k1" by blast
  from raiseAngle_spec[of ?e] obtain k2 :: int where
    r: "- pi \<le> ?r" "?r = ?e - 2 * pi * real_of_int k2" "?e < - pi \<longrightarrow> ?r < pi" "- pi \<le> ?e \<longrightarrow> ?r = ?e"
    by blast
  have rle: "?r \<le> pi" using e(1) r(3,4) by (cases "?e < - pi") auto
  have "wrapAngle d = d - 2 * pi * real_of_int \<lceil>(d - pi) / (2 * pi)\<rceil>" by (simp add: wrapAngle_def)
  then have "?r = wrapAngle d - 2 * pi * real_of_int (k1 + k2 - \<lceil>(d - pi) / (2 * pi)\<rceil>)"
    using e(2) r(2) by (simp add: algebra_simps)
  with abs_representative[OF r(1) rle] wrapAngle_range[of d] show ?thesis by blast
qed

lemma turnAt_spec:
  "turnAt p0 p1 p2 t = t + turningAngleAt [p0, p1, p2] (Suc 0)"
  by (simp add: turnAt_def turningAngleAt_def segmentOf_def Let_def normalise_abs)

lemma turningAngleAt_window:
  "turningAngleAt [p0, p1, p2, p3, p4] (Suc 0) = turningAngleAt [p0, p1, p2] (Suc 0)"
  "turningAngleAt [p0, p1, p2, p3, p4] 2 = turningAngleAt [p1, p2, p3] (Suc 0)"
  "turningAngleAt [p0, p1, p2, p3, p4] 3 = turningAngleAt [p2, p3, p4] (Suc 0)"
  by (simp_all add: turningAngleAt_def segmentOf_def Let_def numeral_2_eq_2 numeral_3_eq_3)

lemma spiral_iff_turning:
  assumes "length w = 5"
  shows "isSpirialPattern w \<longleftrightarrow> pi < windowTurning (map h_eyePosition w)"
proof -
  from assms obtain e0 e1 e2 e3 e4 where w: "w = [e0, e1, e2, e3, e4]"
    by (auto simp: length_Suc_conv numeral_eq_Suc)
  show ?thesis unfolding w
    by (simp add: isSpirialPattern_def windowTurning_def turnAt_spec turningAngleAt_window)
qed

text \<open>
  Claim C7, as the code has it. A window of five reading-history entries is classified as
  a spiral exactly when the sum of the turning angles at its three interior points is
  strictly greater than \<open>\<pi>\<close>, where the turning angle at a point is the absolute difference
  of the directions of its two adjacent segments modulo a full turn, and is zero where one
  of the two segments is degenerate.
\<close>

theorem spiral_iff_window_turning:
  "length w = 5 \<Longrightarrow> isSpirialPattern w \<longleftrightarrow> pi < windowTurning (map h_eyePosition w)"
  by (rule spiral_iff_turning)

lemma wrapAngle_id: "- pi < d \<Longrightarrow> d \<le> pi \<Longrightarrow> wrapAngle d = d"
proof -
  assume a: "- pi < d" "d \<le> pi"
  have p: "0 < 2 * pi" using pi_gt_zero by simp
  have "- 1 < (d - pi) / (2 * pi)" using a p by (simp add: field_simps)
  moreover have "(d - pi) / (2 * pi) \<le> 0" using a p by (simp add: field_simps)
  ultimately have "\<lceil>(d - pi) / (2 * pi)\<rceil> = 0" by linarith
  then show ?thesis by (simp add: wrapAngle_def)
qed

lemma straight_turning: "windowTurning (map h_eyePosition straightWindow) = 0"
  using pi_gt_zero
  by (simp add: windowTurning_def straightWindow_def entryAt_def turningAngleAt_def segmentOf_def
      Let_def degenerate_def atan2_def numeral_2_eq_2 numeral_3_eq_3 wrapAngle_id)

text \<open>Witness: the straight window has turning 0 and is not a spiral.\<close>

theorem spiral_iff_window_turning_witness:
  "length straightWindow = 5 \<and> \<not> isSpirialPattern straightWindow
   \<and> windowTurning (map h_eyePosition straightWindow) = 0"
  using spiral_iff_window_turning[of straightWindow] straight_turning pi_gt_zero
  by (simp add: straightWindow_def)

lemma arctan_facts: "0 < arctan (1 / 2)" "arctan (1 / 2) < arctan 3" "arctan 3 < pi / 2"
proof -
  show "0 < arctan (1 / 2)" by (simp add: zero_less_arctan_iff)
  show "arctan (1 / 2) < arctan 3" by (simp add: arctan_less_iff)
  show "arctan 3 < pi / 2" by (rule arctan_ubound)
qed

lemma halfCircle_total:
  "turningLoop (map h_eyePosition halfCircleWindow) 0 = 2 * arctan 3"
proof -
  note f = arctan_facts
  have p: "0 < pi" by (rule pi_gt_zero)
  have a1: "atan2 60 (- 20) = pi - arctan 3" by (simp add: atan2_def arctan_minus)
  have a2: "atan2 40 (- 80) = pi - arctan (1 / 2)" by (simp add: atan2_def arctan_minus)
  have a3: "atan2 (- 40) (- 80) = arctan (1 / 2) - pi" by (simp add: atan2_def)
  have a4: "atan2 (- 60) (- 20) = arctan 3 - pi" by (simp add: atan2_def)
  have "lowerAngle (arctan 3 - arctan (1 / 2)) = arctan 3 - arctan (1 / 2)"
    using f p by (intro lowerAngle_id) linarith
  moreover have "raiseAngle (arctan 3 - arctan (1 / 2)) = arctan 3 - arctan (1 / 2)"
    using f p by (intro raiseAngle_id) linarith
  ultimately have n1: "raiseAngle (lowerAngle (arctan 3 - arctan (1 / 2))) = arctan 3 - arctan (1 / 2)"
    by simp
  have "lowerAngle (2 * arctan (1 / 2) - 2 * pi) = 2 * arctan (1 / 2) - 2 * pi"
    using f p by (intro lowerAngle_id) linarith
  then have "raiseAngle (lowerAngle (2 * arctan (1 / 2) - 2 * pi)) = raiseAngle (2 * arctan (1 / 2) - 2 * pi)"
    by simp
  also have "\<dots> = raiseAngle (2 * arctan (1 / 2) - 2 * pi + 2 * pi)"
    using f p by (intro raiseAngle_step) linarith
  also have "\<dots> = raiseAngle (2 * arctan (1 / 2))" by simp
  also have "\<dots> = 2 * arctan (1 / 2)"
    using f p by (intro raiseAngle_id) linarith
  finally have n2: "raiseAngle (lowerAngle (2 * arctan (1 / 2) - 2 * pi)) = 2 * arctan (1 / 2)" .
  have t1: "turnAt (100, 0) (80, 60) (0, 100) 0 = arctan 3 - arctan (1 / 2)"
    using f by (simp add: turnAt_def degenerate_def Let_def a1 a2 n1)
  have d2: "arctan (1 / 2) - pi - (pi - arctan (1 / 2)) = 2 * arctan (1 / 2) - 2 * pi" by simp
  have t2: "turnAt (80, 60) (0, 100) (- 80, 60) t = t + 2 * arctan (1 / 2)" for t
    using f by (simp add: turnAt_def degenerate_def Let_def a2 a3 d2 n2)
  have d3: "arctan 3 - pi - (arctan (1 / 2) - pi) = arctan 3 - arctan (1 / 2)" by simp
  have t3: "turnAt (0, 100) (- 80, 60) (- 100, 0) t = t + (arctan 3 - arctan (1 / 2))" for t
    using f by (simp add: turnAt_def degenerate_def Let_def a3 a4 d3 n1)
  show ?thesis
    by (simp add: halfCircleWindow_def entryAt_def t1 t2 t3)
qed

text \<open>
  Claim C7 as stated fails: five points of a half-circle turn by \<open>2 arctan 3\<close>, less than \<open>\<pi>\<close>,
  and the window is not classified as a spiral.
\<close>

theorem halfCircle_not_spiral: "\<not> isSpirialPattern halfCircleWindow"
proof -
  have "2 * arctan 3 < pi" using arctan_facts(3) by simp
  then show ?thesis
    by (simp add: isSpirialPattern_def halfCircle_total)
qed

section \<open>Proofs: degenerate geometry\<close>

lemma jadd_NaN_right [simp]: "jadd a NaN = NaN"
  by (cases a) simp_all
lemma jmul_NaN_right [simp]: "jmul a NaN = NaN"
  by (cases a) simp_all
lemma jdiv_NaN_right [simp]: "jdiv a NaN = NaN"
  by (cases a) simp_all

lemma repel_NaN: "repel nd (NaN, NaN) nearby = (NaN, NaN)"
  by (simp add: repel_def Let_def)

lemma foldl_repel_NaN: "foldl (repel nd) (NaN, NaN) ns = (NaN, NaN)"
  by (induction ns) (simp_all add: repel_NaN)

lemma repel_coincident:
  "n_id m \<noteq> n_id nd \<Longrightarrow> n_position m = n_position nd \<Longrightarrow> repel nd d m = (NaN, NaN)"
  by (simp add: repel_def Let_def jsub_def signedInf_def)

text \<open>
  Claim C8. The two divisions of \<open>calculateGrowthDirection\<close>, by the distance to a nearby
  node and by the magnitude of the summed direction, have no guard. Whenever the list of
  nearby nodes holds a node with another id at the position of the growing node, the
  distance is zero, \<open>dx / dist\<close> is zero divided by zero, and both components of the
  returned direction are NaN.
\<close>

theorem calculateGrowthDirection_coincident:
  assumes "m \<in> set nearbyNodes" "n_id m \<noteq> n_id nd" "n_position m = n_position nd"
  shows "calculateGrowthDirection nd nearbyNodes = (NaN, NaN)"
proof -
  from assms(1) obtain xs ys where sp: "nearbyNodes = xs @ m # ys" by (meson split_list)
  have "foldl (repel nd) d nearbyNodes = (NaN, NaN)" for d
    unfolding sp using assms(2,3) by (simp add: repel_coincident foldl_repel_NaN)
  then show ?thesis by (simp add: calculateGrowthDirection_def Let_def)
qed

theorem calculateGrowthDirection_coincident_witness:
  "nodeAt 1 (100, 100) \<in> set [nodeAt 1 (100, 100)]
   \<and> n_id (nodeAt 1 (100, 100)) \<noteq> n_id (nodeAt 0 (100, 100))
   \<and> n_position (nodeAt 1 (100, 100)) = n_position (nodeAt 0 (100, 100))
   \<and> calculateGrowthDirection (nodeAt 0 (100, 100)) [nodeAt 1 (100, 100)] = (NaN, NaN)"
  using calculateGrowthDirection_coincident[of "nodeAt 1 (100, 100)" "[nodeAt 1 (100, 100)]" "nodeAt 0 (100, 100)"]
  by (simp add: nodeAt_def)

text \<open>
  The guarded sibling: \<open>normalizeVector\<close> returns the zero vector on a NaN magnitude, which
  is what \<open>calculateSemanticGrowthDirection\<close> makes of such a direction, and a finite vector
  on a finite one.
\<close>

lemma normalizeVector_NaN: "normalizeVector (NaN, NaN) = (Num 0, Num 0)"
  by (simp add: normalizeVector_def)

lemma normalizeVector_finite:
  "\<exists>x y. normalizeVector (Num a, Num b) = (Num x, Num y)"
proof (cases "0 < sqrt (a * a + b * b)")
  case True
  then show ?thesis by (auto simp: normalizeVector_def Let_def)
next
  case False
  then show ?thesis by (simp add: normalizeVector_def Let_def)
qed

section \<open>Proofs: the growth engine\<close>

lemma simulateReadingBody_graph [simp]:
  "semanticGraph (simulateReadingBody sf nd) = semanticGraph sf"
  by (simp add: simulateReadingBody_def)

lemma createSemanticBranch_result:
  "(snd (createSemanticBranch s p nearby) = None \<and> fst (createSemanticBranch s p nearby) = s)
   \<or> (\<exists>b c. snd (createSemanticBranch s p nearby) = Some b
           \<and> branchOf s p nearby b c (fst (createSemanticBranch s p nearby)))"
  by (auto simp: createSemanticBranch_def Let_def branchOf_def split: option.splits)

lemma createSemanticAvoidanceBranch_result:
  "(snd (createSemanticAvoidanceBranch s p nearby) = None \<and> fst (createSemanticAvoidanceBranch s p nearby) = s)
   \<or> (\<exists>b c. snd (createSemanticAvoidanceBranch s p nearby) = Some b
           \<and> branchOf s p nearby b c (fst (createSemanticAvoidanceBranch s p nearby)))"
  using createSemanticBranch_result[of s p nearby]
  by (auto simp: createSemanticAvoidanceBranch_def Let_def)

lemma calculateEnergyDecay_pos: "1 / 10 \<le> calculateEnergyDecay s nd nearby"
  by (simp add: calculateEnergyDecay_def Let_def)

lemma recordReadingTrajectory_fields [simp]:
  "nodes (recordReadingTrajectory s a b d) = nodes s"
  "connections (recordReadingTrajectory s a b d) = connections s"
  "layoutText (recordReadingTrajectory s a b d) = layoutText s"
  "semanticField (recordReadingTrajectory s a b d) = semanticField s"
  "isGrowing (recordReadingTrajectory s a b d) = isGrowing s"
  "growthQueue (recordReadingTrajectory s a b d) = growthQueue s"
  "generation (recordReadingTrajectory s a b d) = generation s"
  "spatialIndex (recordReadingTrajectory s a b d) = spatialIndex s"
  "params (recordReadingTrajectory s a b d) = params s"
  by (simp_all add: recordReadingTrajectory_def Let_def)

lemma branchOf_effect:
  assumes br: "branchOf s nd nearby b c s'" and pos: "0 < n_energy nd"
  shows "growEffect s nd nearby s' [b] [c]"
proof -
  from br have e: "n_energy b = n_energy nd * (8 / 10)" by (simp add: branchOf_def)
  have eb: "n_energy b \<le> n_energy nd" using pos e by simp
  from br eb show ?thesis by (simp add: branchOf_def growEffect_def)
qed

lemma growEffect_nothing: "growEffect s nd nearby s [] []"
  by (simp add: growEffect_def)

lemma growEffect_trans:
  assumes 1: "growEffect s nd nearby s1 a1 c1" and 2: "growEffect s1 nd nearby s2 a2 c2"
  shows "growEffect s nd nearby s2 (a1 @ a2) (c1 @ c2)"
proof -
  from 1 have n1: "nodes s1 = nodes s @ a1" and i1: "map n_id a1 = [length (nodes s) ..< length (nodes s) + length a1]"
    and g1: "semanticGraph (semanticField s1) = semanticGraph (semanticField s)"
    by (simp_all add: growEffect_def)
  from 2 n1 have i2: "map n_id a2 = [length (nodes s) + length a1 ..< length (nodes s) + length a1 + length a2]"
    by (simp add: growEffect_def)
  have ids: "map n_id (a1 @ a2) = [length (nodes s) ..< length (nodes s) + length (a1 @ a2)]"
  proof -
    have "[length (nodes s) ..< length (nodes s) + length a1 + length a2]
        = [length (nodes s) ..< length (nodes s) + length a1]
          @ [length (nodes s) + length a1 ..< length (nodes s) + length a1 + length a2]"
      by (rule upt_add_eq_append) simp
    with i1 i2 show ?thesis by (simp add: add.assoc)
  qed
  from 1 2 ids show ?thesis
    unfolding growEffect_def by (simp add: ball_Un) blast
qed

lemma avoidGrowth_effect:
  assumes pos: "0 < n_energy nd"
  shows "\<exists>added cs. growEffect s nd nearby (fst (avoidGrowth s nd nearby q)) added cs
      \<and> set (snd (avoidGrowth s nd nearby q)) \<subseteq> set q \<union> set added"
  using createSemanticAvoidanceBranch_result[of s nd nearby]
proof (elim disjE conjE exE)
  assume a: "snd (createSemanticAvoidanceBranch s nd nearby) = None"
    "fst (createSemanticAvoidanceBranch s nd nearby) = s"
  then have "avoidGrowth s nd nearby q = (s, q)" by (simp add: avoidGrowth_def Let_def)
  then have "growEffect s nd nearby (fst (avoidGrowth s nd nearby q)) [] []
      \<and> set (snd (avoidGrowth s nd nearby q)) \<subseteq> set q \<union> set []"
    by (simp add: growEffect_nothing)
  then show ?thesis by blast
next
  fix b c
  assume a: "snd (createSemanticAvoidanceBranch s nd nearby) = Some b"
    "branchOf s nd nearby b c (fst (createSemanticAvoidanceBranch s nd nearby))"
  then have r: "avoidGrowth s nd nearby q = (fst (createSemanticAvoidanceBranch s nd nearby), q @ [b])"
    by (simp add: avoidGrowth_def Let_def)
  have "growEffect s nd nearby (fst (avoidGrowth s nd nearby q)) [b] [c]
      \<and> set (snd (avoidGrowth s nd nearby q)) \<subseteq> set q \<union> set [b]"
    using branchOf_effect[OF a(2) pos] by (simp add: r)
  then show ?thesis by blast
qed

lemma childConnection_ends:
  "c_from (childConnection s nd n) = n_id nd" "c_to (childConnection s nd n) = n_id n"
  by (simp_all add: childConnection_def Let_def)

lemma acceptGrowth_effect:
  assumes pos: "0 < n_energy nd"
    and idn: "n_id newNode = length (nodes s)"
    and par: "n_parent newNode = Some (n_id nd)"
    and en: "n_energy newNode \<le> n_energy nd"
    and gen: "n_generation newNode = n_generation nd + 1"
    and ok: "\<not> checkSemanticIntersection s newNode nearby"
  shows "\<exists>added cs. growEffect s nd nearby (fst (acceptGrowth inp s nd newNode nearby q)) added cs
      \<and> set (snd (acceptGrowth inp s nd newNode nearby q)) \<subseteq> set q \<union> set added"
proof -
  define s1 where "s1 = s\<lparr>nodes := nodes s @ [newNode],
                 spatialIndex := snd (insert_item (spatialIndex s) (Item newNode))\<rparr>"
  define s2 where "s2 = s1\<lparr>connections := connections s1 @ [childConnection s1 nd newNode]\<rparr>"
  have e2: "growEffect s nd nearby s2 [newNode] [childConnection s1 nd newNode]"
    using idn par en gen
    by (simp add: growEffect_def s2_def s1_def childConnection_ends)
  have ag: "acceptGrowth inp s nd newNode nearby q =
      (if g_random inp < calculateSemanticBranchProbability s2 nd nearby \<and> 50 < n_energy nd
       then (fst (createSemanticBranch s2 nd nearby),
             case snd (createSemanticBranch s2 nd nearby) of None \<Rightarrow> q @ [newNode]
               | Some branchNode \<Rightarrow> q @ [newNode, branchNode])
       else (s2, q @ [newNode]))"
    by (simp add: acceptGrowth_def Let_def s2_def s1_def)
  show ?thesis
  proof (cases "g_random inp < calculateSemanticBranchProbability s2 nd nearby \<and> 50 < n_energy nd")
    case False
    then have "acceptGrowth inp s nd newNode nearby q = (s2, q @ [newNode])"
      by (auto simp: ag)
    with e2 have "growEffect s nd nearby (fst (acceptGrowth inp s nd newNode nearby q)) [newNode] [childConnection s1 nd newNode]
      \<and> set (snd (acceptGrowth inp s nd newNode nearby q)) \<subseteq> set q \<union> set [newNode]"
      by simp
    then show ?thesis by blast
  next
    case True
    then have r: "acceptGrowth inp s nd newNode nearby q =
        (fst (createSemanticBranch s2 nd nearby),
         case snd (createSemanticBranch s2 nd nearby) of None \<Rightarrow> q @ [newNode]
           | Some branchNode \<Rightarrow> q @ [newNode, branchNode])"
      by (simp add: ag)
    from createSemanticBranch_result[of s2 nd nearby] show ?thesis
    proof (elim disjE conjE exE)
      assume a: "snd (createSemanticBranch s2 nd nearby) = None"
        "fst (createSemanticBranch s2 nd nearby) = s2"
      with e2 r have "growEffect s nd nearby (fst (acceptGrowth inp s nd newNode nearby q)) [newNode] [childConnection s1 nd newNode]
        \<and> set (snd (acceptGrowth inp s nd newNode nearby q)) \<subseteq> set q \<union> set [newNode]"
        by simp
      then show ?thesis by blast
    next
      fix b c
      assume a: "snd (createSemanticBranch s2 nd nearby) = Some b"
        "branchOf s2 nd nearby b c (fst (createSemanticBranch s2 nd nearby))"
      from growEffect_trans[OF e2 branchOf_effect[OF a(2) pos]]
      have "growEffect s nd nearby (fst (acceptGrowth inp s nd newNode nearby q)) ([newNode] @ [b]) ([childConnection s1 nd newNode] @ [c])
        \<and> set (snd (acceptGrowth inp s nd newNode nearby q)) \<subseteq> set q \<union> set ([newNode] @ [b])"
        using a(1) by (simp add: r)
      then show ?thesis by blast
    qed
  qed
qed

lemma growEffect_frame:
  assumes "growEffect s nd nearby s' added cs"
    and "nodes t = nodes s" "connections t = connections s" "layoutText t = layoutText s"
    "semanticGraph (semanticField t) = semanticGraph (semanticField s)"
    "isGrowing t = isGrowing s" "growthQueue t = growthQueue s" "generation t = generation s"
    and "nodes t' = nodes s'" "connections t' = connections s'" "layoutText t' = layoutText s'"
    "semanticGraph (semanticField t') = semanticGraph (semanticField s')"
    "isGrowing t' = isGrowing s'" "growthQueue t' = growthQueue s'" "generation t' = generation s'"
  shows "growEffect t nd nearby t' added cs"
  using assms unfolding growEffect_def by simp

lemma growNode_effect:
  "\<exists>added cs. growEffect s nd (fst (query (spatialIndex s) (Some (n_position nd)) 50))
        (fst (growNode inp (s, q) nd)) added cs
      \<and> set (snd (growNode inp (s, q) nd)) \<subseteq> set q \<union> set added"
proof (cases "n_energy nd \<le> 0 \<or> int (length (layoutText s)) - 1 \<le> int (n_textIndex nd)")
  case True
  then have "growNode inp (s, q) nd = (s, q)" by (simp add: growNode_def)
  then have "growEffect s nd (fst (query (spatialIndex s) (Some (n_position nd)) 50)) (fst (growNode inp (s, q) nd)) [] []
      \<and> set (snd (growNode inp (s, q) nd)) \<subseteq> set q \<union> set []"
    by (simp add: growEffect_nothing)
  then show ?thesis by blast
next
  case active: False
  then have pos: "0 < n_energy nd" by simp
  define nearby where "nearby = fst (query (spatialIndex s) (Some (n_position nd)) 50)"
  define s1 where "s1 = s\<lparr>spatialIndex := snd (query (spatialIndex s) (Some (n_position nd)) 50),
                       semanticField := simulateReadingBody (semanticField s) nd\<rparr>"
  define newNode where "newNode = growthCandidate inp s1 nd nearby"
  define s2 where "s2 = s1\<lparr>collocationFields := collocationFields s1 @
                         visualizeCollocationSensation (semanticField s1) nd nearby\<rparr>"
  define r where "r = (if \<not> checkSemanticIntersection s2 newNode nearby
                     then acceptGrowth inp s2 nd newNode nearby q
                     else avoidGrowth s2 nd nearby q)"
  have "growNode inp (s, q) nd =
     (if n_energy nd \<le> 0 \<or> int (length (layoutText s)) - 1 \<le> int (n_textIndex nd) then (s, q)
      else (recordReadingTrajectory (fst r) nd newNode (g_curvedDir inp), snd r))"
    by (simp add: growNode_def r_def s2_def newNode_def s1_def nearby_def Let_def)
  with active have unfold:
    "growNode inp (s, q) nd = (recordReadingTrajectory (fst r) nd newNode (g_curvedDir inp), snd r)"
    by (simp only: if_False)
  have f: "nodes s2 = nodes s" "connections s2 = connections s" "layoutText s2 = layoutText s"
    "semanticGraph (semanticField s2) = semanticGraph (semanticField s)"
    "isGrowing s2 = isGrowing s" "growthQueue s2 = growthQueue s" "generation s2 = generation s"
    by (simp_all add: s2_def s1_def)
  have cand: "n_id newNode = length (nodes s2)" "n_parent newNode = Some (n_id nd)"
    "n_energy newNode \<le> n_energy nd" "n_generation newNode = n_generation nd + 1"
    using calculateEnergyDecay_pos[of s1 nd nearby]
    by (simp_all add: newNode_def growthCandidate_def s2_def s1_def)
  have "\<exists>added cs. growEffect s2 nd nearby (fst r) added cs \<and> set (snd r) \<subseteq> set q \<union> set added"
  proof (cases "checkSemanticIntersection s2 newNode nearby")
    case True
    then have "r = avoidGrowth s2 nd nearby q" by (simp add: r_def)
    with avoidGrowth_effect[OF pos, of s2 nearby q] show ?thesis by simp
  next
    case False
    then have "r = acceptGrowth inp s2 nd newNode nearby q" by (simp add: r_def)
    with acceptGrowth_effect[OF pos cand False, of inp q] show ?thesis by simp
  qed
  then obtain added cs where e: "growEffect s2 nd nearby (fst r) added cs" and qq: "set (snd r) \<subseteq> set q \<union> set added"
    by blast
  have "growEffect s nd nearby (recordReadingTrajectory (fst r) nd newNode (g_curvedDir inp)) added cs"
    by (rule growEffect_frame[OF e]) (simp_all add: f)
  with qq show ?thesis unfolding unfold nearby_def by auto
qed

lemma loopEffect_nothing: "loopEffect s ps s [] []"
  by (simp add: loopEffect_def)

lemma loopEffect_step:
  assumes 1: "growEffect s nd nearby s1 a1 c1" and 2: "loopEffect s1 rest s2 a2 c2"
  shows "loopEffect s (nd # rest) s2 (a1 @ a2) (c1 @ c2)"
proof -
  from 1 have n1: "nodes s1 = nodes s @ a1"
    and i1: "map n_id a1 = [length (nodes s) ..< length (nodes s) + length a1]"
    by (simp_all add: growEffect_def)
  from 2 n1 have i2: "map n_id a2 = [length (nodes s) + length a1 ..< length (nodes s) + length a1 + length a2]"
    by (simp add: loopEffect_def)
  have ids: "map n_id (a1 @ a2) = [length (nodes s) ..< length (nodes s) + length (a1 @ a2)]"
  proof -
    have "[length (nodes s) ..< length (nodes s) + length a1 + length a2]
        = [length (nodes s) ..< length (nodes s) + length a1]
          @ [length (nodes s) + length a1 ..< length (nodes s) + length a1 + length a2]"
      by (rule upt_add_eq_append) simp
    with i1 i2 show ?thesis by (simp add: add.assoc)
  qed
  have c1: "\<forall>c\<in>set c1. \<exists>p\<in>set (nd # rest). \<exists>n\<in>set (a1 @ a2). c_from c = n_id p \<and> c_to c = n_id n
            \<and> n_parent n = Some (n_id p) \<and> n_energy n \<le> n_energy p
            \<and> n_generation n = n_generation p + 1"
    using 1 unfolding growEffect_def by (simp add: bex_Un; (blast)?)
  have c2: "\<forall>c\<in>set c2. \<exists>p\<in>set (nd # rest). \<exists>n\<in>set (a1 @ a2). c_from c = n_id p \<and> c_to c = n_id n
            \<and> n_parent n = Some (n_id p) \<and> n_energy n \<le> n_energy p
            \<and> n_generation n = n_generation p + 1"
    using 2 unfolding loopEffect_def by (simp add: bex_Un; (blast)?)
  from 1 2 ids c1 c2 show ?thesis
    unfolding growEffect_def loopEffect_def by (simp add: ball_Un)
qed

lemma growLoop_effect:
  "\<exists>added cs. loopEffect s ps (fst (growLoop inputs i ps (s, q))) added cs"
proof (induction ps arbitrary: s q i)
  case Nil
  show ?case using loopEffect_nothing[of s "[]"] by auto
next
  case (Cons nd rest)
  obtain s1 q1 where g: "growNode (inputs i) (s, q) nd = (s1, q1)" by (cases "growNode (inputs i) (s, q) nd")
  from growNode_effect[of s nd "inputs i" q] g obtain a1 c1 where
    e1: "growEffect s nd (fst (query (spatialIndex s) (Some (n_position nd)) 50)) s1 a1 c1" by auto
  from Cons.IH[of s1 "Suc i" q1] obtain a2 c2 where
    e2: "loopEffect s1 rest (fst (growLoop inputs (Suc i) rest (s1, q1))) a2 c2" by blast
  from loopEffect_step[OF e1 e2] g show ?case by auto
qed

lemma updateEmergentPatterns_fields [simp]:
  "nodes (updateEmergentPatterns s) = nodes s"
  "connections (updateEmergentPatterns s) = connections s"
  "layoutText (updateEmergentPatterns s) = layoutText s"
  "semanticField (updateEmergentPatterns s) = semanticField s"
  "isGrowing (updateEmergentPatterns s) = isGrowing s"
  "generation (updateEmergentPatterns s) = generation s"
  "spatialIndex (updateEmergentPatterns s) = spatialIndex s"
  by (simp_all add: updateEmergentPatterns_def Let_def)

lemma performSelfReflection_fields [simp]:
  "nodes (performSelfReflection s) = nodes s"
  "connections (performSelfReflection s) = connections s"
  "layoutText (performSelfReflection s) = layoutText s"
  "semanticField (performSelfReflection s) = semanticField s"
  "isGrowing (performSelfReflection s) = isGrowing s"
  "generation (performSelfReflection s) = generation s"
  "spatialIndex (performSelfReflection s) = spatialIndex s"
  by (simp_all add: performSelfReflection_def Let_def)

lemma grow_fields:
  "nodes (grow inputs s) = nodes (fst (growLoop inputs 0 (growthQueue s) (s, [])))
   \<or> grow inputs s = s"
  "connections (grow inputs s) = connections (fst (growLoop inputs 0 (growthQueue s) (s, [])))
   \<or> grow inputs s = s"
  by (simp_all add: grow_def Let_def)

lemma grow_effect:
  "\<exists>added cs. nodes (grow inputs s) = nodes s @ added
     \<and> connections (grow inputs s) = connections s @ cs
     \<and> map n_id added = [length (nodes s) ..< length (nodes s) + length added]
     \<and> (\<forall>c\<in>set cs. \<exists>p\<in>set (growthQueue s). \<exists>n\<in>set added. c_from c = n_id p \<and> c_to c = n_id n
            \<and> n_parent n = Some (n_id p) \<and> n_energy n \<le> n_energy p
            \<and> n_generation n = n_generation p + 1)"
proof (cases "\<not> isGrowing s \<or> growthQueue s = []")
  case True
  then have "grow inputs s = s" by (simp add: grow_def)
  then have "nodes (grow inputs s) = nodes s @ [] \<and> connections (grow inputs s) = connections s @ []
     \<and> map n_id [] = [length (nodes s) ..< length (nodes s) + length ([]::node list)]
     \<and> (\<forall>c\<in>set ([]::connection list). \<exists>p\<in>set (growthQueue s). \<exists>n\<in>set ([]::node list). c_from c = n_id p \<and> c_to c = n_id n
            \<and> n_parent n = Some (n_id p) \<and> n_energy n \<le> n_energy p
            \<and> n_generation n = n_generation p + 1)" by simp
  then show ?thesis by blast
next
  case False
  from growLoop_effect[of s "growthQueue s" inputs 0 "[]"] obtain added cs where
    e: "loopEffect s (growthQueue s) (fst (growLoop inputs 0 (growthQueue s) (s, []))) added cs" by blast
  have n: "nodes (grow inputs s) = nodes (fst (growLoop inputs 0 (growthQueue s) (s, [])))"
    and c: "connections (grow inputs s) = connections (fst (growLoop inputs 0 (growthQueue s) (s, [])))"
    using False by (simp_all add: grow_def Let_def)
  from e have "nodes (grow inputs s) = nodes s @ added
     \<and> connections (grow inputs s) = connections s @ cs
     \<and> map n_id added = [length (nodes s) ..< length (nodes s) + length added]
     \<and> (\<forall>c\<in>set cs. \<exists>p\<in>set (growthQueue s). \<exists>n\<in>set added. c_from c = n_id p \<and> c_to c = n_id n
            \<and> n_parent n = Some (n_id p) \<and> n_energy n \<le> n_energy p
            \<and> n_generation n = n_generation p + 1)"
    unfolding loopEffect_def n c by simp
  then show ?thesis by blast
qed

lemma idsInOrder_distinct: "idsInOrder s \<Longrightarrow> distinct (map n_id (nodes s))"
  by (simp add: idsInOrder_def)

lemma idsInOrder_grow: "idsInOrder s \<Longrightarrow> idsInOrder (grow inputs s)"
proof -
  assume a: "idsInOrder s"
  from grow_effect[of inputs s] obtain added where
    e: "nodes (grow inputs s) = nodes s @ added"
       "map n_id added = [length (nodes s) ..< length (nodes s) + length added]" by blast
  have "[0 ..< length (nodes s) + length added] = [0 ..< length (nodes s)] @ [length (nodes s) ..< length (nodes s) + length added]"
    using upt_add_eq_append[of 0 "length (nodes s)" "length added"] by simp
  with a e show ?thesis by (simp add: idsInOrder_def)
qed

lemma idsInOrder_addSeed: "idsInOrder s \<Longrightarrow> idsInOrder (addSeed rnd s i)"
  by (simp add: idsInOrder_def addSeed_def makeSeed_def Let_def)

lemma idsInOrder_foldl_addSeed: "idsInOrder s \<Longrightarrow> idsInOrder (foldl (addSeed rnd) s ks)"
  by (induction ks arbitrary: s) (simp_all add: idsInOrder_addSeed)

lemma idsInOrder_initialize: "idsInOrder s \<Longrightarrow> idsInOrder (initialize rnd s)"
  by (simp add: initialize_def idsInOrder_foldl_addSeed)

lemma idsInOrder_new: "idsInOrder (newOrganicLayout hsim txt w h)"
  by (simp add: idsInOrder_def newOrganicLayout_def)

lemma idsInOrder_reset: "idsInOrder (reset rnd s)"
  unfolding reset_def by (rule idsInOrder_initialize) (simp add: idsInOrder_def)

lemma performMemoryOptimization_nodes:
  "nodes (performMemoryOptimization s) =
     (if 1000 < length (nodes s) then drop (length (nodes s) - 1000) (nodes s) else nodes s)"
  by (simp add: performMemoryOptimization_def Let_def)

lemma eviction_keeps_last_id:
  assumes big: "1000 < length (nodes s)" "length (nodes s) \<le> 2000" and ord: "idsInOrder s"
  shows "length (nodes (performMemoryOptimization s)) = 1000
     \<and> 1000 \<in> set (map n_id (nodes (performMemoryOptimization s)))"
proof -
  let ?k = "length (nodes s) - 1000"
  have n: "nodes (performMemoryOptimization s) = drop ?k (nodes s)"
    using big by (simp add: performMemoryOptimization_nodes)
  have "map n_id (drop ?k (nodes s)) = drop ?k [0 ..< length (nodes s)]"
    using ord by (simp add: idsInOrder_def drop_map[symmetric])
  also have "\<dots> = [?k ..< length (nodes s)]" by (simp add: drop_upt)
  finally have ids: "map n_id (nodes (performMemoryOptimization s)) = [?k ..< length (nodes s)]"
    by (simp add: n)
  have "1000 \<in> set [?k ..< length (nodes s)]" using big by simp
  with ids n big show ?thesis by simp
qed

section \<open>Proofs: the first tick of a seeded layout\<close>

lemma length_text400: "length text400 = 400" by (simp add: text400_def ascii_def)

lemma sqrt_400: "sqrt 400 = 20"
  by (rule real_sqrt_unique) simp_all

lemma seedCount_text400: "seedCount text400 = 4"
  by (simp add: seedCount_def length_text400 sqrt_400)

lemma splitWords_spaces:
  "splitWords cur (replicate n 32) = (if cur = [] then [] else [cur])"
proof (induction n arbitrary: cur)
  case 0 then show ?case by simp
next
  case (Suc n)
  then show ?case by (simp add: isDelimiter_def)
qed

lemma tokenize_text400:
  "tokenize text400 = [ascii ''ba'', ascii ''a'', ascii ''a'']"
  by (simp add: tokenize_def text400_def ascii_def isDelimiter_def splitWords_spaces)

lemma hashes: "simpleHash (ascii ''ba'') = 3135" "simpleHash (ascii ''a'') = 97"
  by (simp_all add: simpleHash_def ascii_def toInt32_def)

lemma field400:
  "analyzeSemanticStructure sameHashSimilarity newSemanticField text400 =
     \<lparr>semanticGraph = [(ascii ''a'', [(ascii ''a'', 1)])],
      collocationMatrix = [(ascii ''ba_a'', 1 / 10), (ascii ''a_a'', 1 / 10)],
      readingHistory = []\<rparr>"
  by (simp add: analyzeSemanticStructure_def tokenize_text400 Let_def newSemanticField_def
      wordSimilarity_def hashes sameHashSimilarity_def addSemanticConnection_def
      collocationKey_def matrixGet_def)
     (simp add: ascii_def)

lemma cos_sin_quarter:
  "cos (3 * pi / 2) = 0" "sin (3 * pi / 2) = - 1"
proof -
  have "3 * pi / 2 = pi + pi / 2" by simp
  then show "cos (3 * pi / 2) = 0" "sin (3 * pi / 2) = - 1" by (simp_all only: cos_add sin_add) simp_all
qed

lemma text400_nth: "text400 ! 0 = 98" "text400 ! Suc 0 = 97"
  by (simp_all add: text400_def ascii_def)

lemma seeded_nodes:
  "nodes seededLayout = [seedNode 0 (500, 300) (1, 0), seedNode 1 (400, 400) (0, 1),
      seedNode 2 (300, 300) (- 1, 0), seedNode 3 (400, 200) (0, - 1)]"
  by (simp add: seededLayout_def start_def initialize_def freshLayout_def newOrganicLayout_def
      seedCount_text400 upt_rec addSeed_def makeSeed_def Let_def seedRandom0_def length_text400
      charAt_def defaultParams_def seedNode_def cos_sin_quarter text400_nth)

lemma seeded_index:
  "spatialIndex seededLayout =
     \<lparr>width = 800, height = 600, cellSize = 50, gridWidth = 16, gridHeight = 12,
      grid = [((10, 6), [seedNode 0 (500, 300) (1, 0)]), ((8, 8), [seedNode 1 (400, 400) (0, 1)]),
              ((6, 6), [seedNode 2 (300, 300) (- 1, 0)]), ((8, 4), [seedNode 3 (400, 200) (0, - 1)])],
      itemCount = 4, queryCache = [], maxCacheSize = 1000\<rparr>"
  by (simp add: seededLayout_def start_def initialize_def freshLayout_def newOrganicLayout_def
      seedCount_text400 upt_rec addSeed_def makeSeed_def Let_def seedRandom0_def length_text400
      charAt_def defaultParams_def seedNode_def cos_sin_quarter text400_nth
      canvasIndex_eq[unfolded canvasIndex_def] insert_item_def findItemById_def getGridKey_def
      cellItems_def clearQueryCache_def)

lemma seeded_rest:
  "growthQueue seededLayout = nodes seededLayout" "isGrowing seededLayout"
  "layoutText seededLayout = text400" "params seededLayout = defaultParams"
  "semanticField seededLayout = analyzeSemanticStructure sameHashSimilarity newSemanticField text400"
  "connections seededLayout = []" "generation seededLayout = 0"
  by (simp_all add: seededLayout_def start_def initialize_def freshLayout_def newOrganicLayout_def
      seedCount_text400 upt_rec addSeed_def Let_def)

lemma getNormalizedDirection_self: "getNormalizedDirection p p = (0, 0)"
  by (simp add: getNormalizedDirection_def)

lemma interest_self:
  "calculateSemanticInterest s p d [p] = max 0 (sin (atan2 (snd d) (fst d) * 3) * (3 / 10))"
  by (simp add: calculateSemanticInterest_def Let_def getNormalizedDirection_self dot_def)

lemma interest_self_le: "calculateSemanticInterest s p d [p] \<le> 3 / 10"
proof -
  have "sin (atan2 (snd d) (fst d) * 3) \<le> 1" by simp
  then have "sin (atan2 (snd d) (fst d) * 3) * (3 / 10) \<le> 1 * (3 / 10)"
    by (intro mult_right_mono) simp_all
  then have "max 0 (sin (atan2 (snd d) (fst d) * 3) * (3 / 10)) \<le> 3 / 10" by linarith
  then show ?thesis unfolding interest_self .
qed

lemma foldl_scan_top:
  "(\<And>a. a \<in> set as \<Longrightarrow> calculateSemanticInterest s p (cos a, sin a) nb \<le> m)
     \<Longrightarrow> foldl (scanInterest s p nb) (b, m) as = (b, m)"
proof (induction as)
  case Nil
  then show ?case by simp
next
  case (Cons a as)
  have "\<not> m < calculateSemanticInterest s p (cos a, sin a) nb"
    using Cons.prems[of a] by simp
  then have "scanInterest s p nb (b, m) a = (b, m)"
    by (simp add: scanInterest_def Let_def)
  with Cons show ?case by simp
qed

lemma atan2_first_quadrant:
  "0 \<le> a \<Longrightarrow> a < pi / 2 \<Longrightarrow> atan2 (sin a) (cos a) = a"
proof -
  assume a: "0 \<le> a" "a < pi / 2"
  then have c: "0 < cos a" by (intro cos_gt_zero_pi) (use pi_gt_zero in linarith)+
  have "arctan (sin a / cos a) = arctan (tan a)" by (simp add: tan_def)
  also have "\<dots> = a" using a pi_gt_zero by (intro arctan_tan) linarith+
  finally show ?thesis using c by (simp add: atan2_def)
qed

lemma branchAngles_split:
  "branchAngles = 0 # (pi / 12) # (pi / 6) # map (\<lambda>k. real k * (pi / 12)) [3 ..< 24]"
  by (simp add: branchAngles_def upt_rec)

lemma scan_self:
  "foldl (scanInterest s p [p]) (None, 0) branchAngles = (Some (cos (pi / 6), sin (pi / 6)), 3 / 10)"
proof -
  have p: "0 < pi" by (rule pi_gt_zero)
  have i0: "calculateSemanticInterest s p (cos 0, sin 0) [p] = 0"
    by (simp add: interest_self atan2_def)
  have s2: "sqrt 2 < 2"
    by (rule real_less_lsqrt) simp_all
  have s0: "0 < sqrt 2" by simp
  have a1: "atan2 (sin (pi / 12)) (cos (pi / 12)) = pi / 12"
    using p by (intro atan2_first_quadrant) simp_all
  have "sin (pi / 12 * 3) = sin (pi / 4)" by simp
  then have "sin (pi / 12 * 3) * (3 / 10) = sqrt 2 / 2 * (3 / 10)" by (simp only: sin_45)
  moreover have "0 \<le> sqrt 2 / 2 * (3 / 10)" using s0 by simp
  ultimately have i1: "calculateSemanticInterest s p (cos (pi / 12), sin (pi / 12)) [p] = sqrt 2 / 2 * (3 / 10)"
    unfolding interest_self fst_conv snd_conv a1 by linarith
  have a2: "atan2 (sin (pi / 6)) (cos (pi / 6)) = pi / 6"
    using p by (intro atan2_first_quadrant) simp_all
  have "sin (pi / 6 * 3) = sin (pi / 2)" by simp
  then have "sin (pi / 6 * 3) * (3 / 10) = 3 / 10" by simp
  then have i2: "calculateSemanticInterest s p (cos (pi / 6), sin (pi / 6)) [p] = 3 / 10"
    unfolding interest_self fst_conv snd_conv a2 by linarith
  have st0: "scanInterest s p [p] (None, 0) 0 = (None, 0)"
    using i0 by (simp add: scanInterest_def Let_def)
  have v1: "0 < sqrt 2 / 2 * (3 / 10)" "sqrt 2 / 2 * (3 / 10) < 3 / 10"
    using s0 s2 by simp_all
  have st1: "scanInterest s p [p] (None, 0) (pi / 12) = (Some (cos (pi / 12), sin (pi / 12)), sqrt 2 / 2 * (3 / 10))"
    unfolding scanInterest_def Let_def i1 snd_conv using v1(1) by (simp only: if_True)
  have st2: "scanInterest s p [p] (Some (cos (pi / 12), sin (pi / 12)), sqrt 2 / 2 * (3 / 10)) (pi / 6)
       = (Some (cos (pi / 6), sin (pi / 6)), 3 / 10)"
    unfolding scanInterest_def Let_def i2 snd_conv using v1(2) by (simp only: if_True)
  have rest: "foldl (scanInterest s p [p]) (Some (cos (pi / 6), sin (pi / 6)), 3 / 10)
                (map (\<lambda>k. real k * (pi / 12)) [3 ..< 24]) = (Some (cos (pi / 6), sin (pi / 6)), 3 / 10)"
    by (rule foldl_scan_top) (rule interest_self_le)
  show ?thesis
    unfolding branchAngles_split by (simp only: foldl.simps st0 st1 st2 rest)
qed

lemma ceil_50_50: "\<lceil>50 / 50 :: real\<rceil> = 1" by simp

lemma seed0_nearby:
  "fst (query (spatialIndex seededLayout) (Some (500, 300)) 50) = [seedNode 0 (500, 300) (1, 0)]"
proof -
  have "fst (query (spatialIndex seededLayout) (Some (500, 300)) 50)
          = scanGrid (spatialIndex seededLayout) (500, 300) 50"
    by (rule query_uncached) (simp_all add: seeded_index)
  also have "\<dots> = [seedNode 0 (500, 300) (1, 0)]"
    by (simp add: seeded_index scanGrid_def scanCell_def cellItems_def Let_def upto_m1_1
        getDistance_def seedNode_def)
  finally show ?thesis .
qed

lemma unit_scaled: "cos a * (cos a * c) + sin a * (sin a * c) = (c::real)"
proof -
  have e: "cos a * cos a + sin a * sin a = 1" by (rule sin_cos_squared_add3)
  have "cos a * (cos a * c) + sin a * (sin a * c) = (cos a * cos a + sin a * sin a) * c"
    by (simp only: distrib_right mult.assoc)
  also have "\<dots> = c" by (simp only: e mult_1)
  finally show ?thesis .
qed

lemma seed0_turn:
  "nodes (fst (growNode (tickInputs 0) (seededLayout, []) (seedNode 0 (500, 300) (1, 0))))
     = nodes seededLayout @ [childNode0, branchNode0]"
  "map (\<lambda>c. (c_from c, c_to c))
     (connections (fst (growNode (tickInputs 0) (seededLayout, []) (seedNode 0 (500, 300) (1, 0)))))
     = [(0, 4), (0, 5)]"
proof -
  define nd where "nd = seedNode 0 (500, 300) (1, 0)"
  define inp where "inp = tickInputs 0"
  define s1 where "s1 = seededLayout\<lparr>spatialIndex := snd (query (spatialIndex seededLayout) (Some (n_position nd)) 50),
                       semanticField := simulateReadingBody (semanticField seededLayout) nd\<rparr>"
  define s2 where "s2 = s1\<lparr>collocationFields := collocationFields s1 @
                         visualizeCollocationSensation (semanticField s1) nd [nd]\<rparr>"
  define s3 where "s3 = s2\<lparr>nodes := nodes s2 @ [childNode0],
                 spatialIndex := snd (insert_item (spatialIndex s2) (Item childNode0))\<rparr>"
  define s4 where "s4 = s3\<lparr>connections := connections s3 @ [childConnection s3 nd childNode0]\<rparr>"
  have ndf: "n_position nd = (500, 300)" "n_energy nd = 100" "n_textIndex nd = 0" "n_char nd = [98]"
     "n_id nd = 0" "n_generation nd = 0"
    by (simp_all add: nd_def seedNode_def)
  have nearby: "fst (query (spatialIndex seededLayout) (Some (n_position nd)) 50) = [nd]"
    using seed0_nearby by (simp add: nd_def seedNode_def)
  have sf1: "semanticField s1 =
     \<lparr>semanticGraph = [(ascii ''a'', [(ascii ''a'', 1)])],
      collocationMatrix = [(ascii ''ba_a'', 1 / 10), (ascii ''a_a'', 1 / 10)],
      readingHistory = [\<lparr>h_node = 0, h_eyePosition = (500, 300), h_cognitiveLoad = 2 / 3\<rparr>]\<rparr>"
    by (simp add: s1_def seeded_rest field400 simulateReadingBody_def ndf calculateCognitiveLoad_def
        getSemanticComplexity_def getContextualLoad_def ascii_def)
  have f1: "layoutText s1 = text400" "params s1 = defaultParams" "nodes s1 = nodes seededLayout"
    by (simp_all add: s1_def seeded_rest)
  have f2: "layoutText s2 = text400" "params s2 = defaultParams" "nodes s2 = nodes seededLayout"
      "semanticField s2 = semanticField s1"
    by (simp_all add: s2_def f1)
  have f4: "layoutText s4 = text400" "params s4 = defaultParams"
      "nodes s4 = nodes seededLayout @ [childNode0]" "semanticField s4 = semanticField s1"
    by (simp_all add: s4_def s3_def f2)
  have cand: "growthCandidate inp s1 nd [nd] = childNode0"
    by (simp add: growthCandidate_def childNode0_def f1 sf1 ndf inp_def tickInputs_def charAt_def
        length_text400 text400_nth offsetPosition_def defaultParams_def calculateEnergyDecay_def
        calculateSemanticCurvature_def calculateCognitiveLoad_def getSemanticComplexity_def
        getContextualLoad_def getCollocationStrength_def matrixGet_def collocationKey_def
        seeded_nodes ascii_def Let_def)
  have chk1: "\<not> checkSemanticIntersection s2 childNode0 [nd]"
    by (simp add: checkSemanticIntersection_def checkIntersection_def getDistance_def childNode0_def
        ndf f2 sf1 getSemanticDistance_def ascii_def sqrt_less_iff)
  have prob: "g_random inp < calculateSemanticBranchProbability s4 nd [nd] \<and> 50 < n_energy nd"
    by (simp add: calculateSemanticBranchProbability_def f4 sf1 ndf inp_def tickInputs_def
        defaultParams_def getSemanticComplexity_def getCollocationStrength_def matrixGet_def
        collocationKey_def ascii_def Let_def)
  have bn: "\<lparr>n_id = length (nodes s4),
                  n_char = charAt (layoutText s4) (n_textIndex nd + 1),
                  n_position = offsetPosition (n_position nd) (cos (pi / 6), sin (pi / 6))
                                 (characterSpacing (params s4)),
                  n_velocity = (cos (pi / 6), sin (pi / 6)),
                  n_energy = n_energy nd * (8 / 10),
                  n_generation = n_generation nd + 1,
                  n_textIndex = n_textIndex nd + 1,
                  n_parent = Some (n_id nd),
                  n_curvature = 0\<rparr> = branchNode0"
    by (simp add: branchNode0_def f4 ndf charAt_def length_text400 text400_nth offsetPosition_def
        defaultParams_def seeded_nodes)
  have chk2: "\<not> checkSemanticIntersection s4 branchNode0 [nd]"
    by (simp add: checkSemanticIntersection_def checkIntersection_def getDistance_def branchNode0_def
        ndf f4 sf1 getSemanticDistance_def ascii_def sqrt_less_iff algebra_simps unit_scaled)
  have br: "nodes (fst (createSemanticBranch s4 nd [nd])) = nodes s4 @ [branchNode0]"
    unfolding createSemanticBranch_def scan_self fst_conv option.case Let_def bn
    using chk2 by simp
  have c4: "map (\<lambda>c. (c_from c, c_to c)) (connections s4) = [(0, 4)]"
    by (simp add: s4_def s3_def s2_def s1_def seeded_rest childConnection_ends ndf childNode0_def)
  have brc: "map (\<lambda>c. (c_from c, c_to c)) (connections (fst (createSemanticBranch s4 nd [nd])))
               = map (\<lambda>c. (c_from c, c_to c)) (connections s4) @ [(0, 5)]"
    unfolding createSemanticBranch_def scan_self fst_conv option.case Let_def bn
    using chk2 by (simp add: ndf branchNode0_def)
  have acc: "nodes (fst (acceptGrowth inp s2 nd childNode0 [nd] [])) = nodes seededLayout @ [childNode0, branchNode0]"
    unfolding acceptGrowth_def Let_def s3_def[symmetric] unfolding s4_def[symmetric]
    using prob br by (simp add: f4)
  have go: "\<not> (n_energy nd \<le> 0 \<or> int (length (layoutText seededLayout)) - 1 \<le> int (n_textIndex nd))"
    by (simp add: ndf seeded_rest length_text400)
  have accc: "map (\<lambda>c. (c_from c, c_to c)) (connections (fst (acceptGrowth inp s2 nd childNode0 [nd] [])))
                = [(0, 4), (0, 5)]"
    unfolding acceptGrowth_def Let_def s3_def[symmetric] unfolding s4_def[symmetric]
    using prob brc c4 by simp
  have g: "fst (growNode inp (seededLayout, []) nd)
             = recordReadingTrajectory (fst (acceptGrowth inp s2 nd childNode0 [nd] [])) nd childNode0
                 (g_curvedDir inp)"
    unfolding growNode_def Let_def fst_conv snd_conv nearby
    unfolding s1_def[symmetric] unfolding cand s2_def[symmetric]
    using chk1 go by simp
  from g acc show "nodes (fst (growNode (tickInputs 0) (seededLayout, []) (seedNode 0 (500, 300) (1, 0))))
     = nodes seededLayout @ [childNode0, branchNode0]" by (simp add: inp_def nd_def)
  from g accc show "map (\<lambda>c. (c_from c, c_to c))
     (connections (fst (growNode (tickInputs 0) (seededLayout, []) (seedNode 0 (500, 300) (1, 0)))))
     = [(0, 4), (0, 5)]" by (simp add: inp_def nd_def)
qed

lemma grow_first_turn:
  assumes g: "isGrowing s" and q: "growthQueue s = nd # rest"
  shows "\<exists>added cs. nodes (grow inputs s) = nodes (fst (growNode (inputs 0) (s, []) nd)) @ added
       \<and> connections (grow inputs s) = connections (fst (growNode (inputs 0) (s, []) nd)) @ cs
       \<and> semanticGraph (semanticField (grow inputs s)) = semanticGraph (semanticField s)"
proof -
  obtain s1 q1 where g1: "growNode (inputs 0) (s, []) nd = (s1, q1)"
    by (cases "growNode (inputs 0) (s, []) nd")
  from growNode_effect[of s nd "inputs 0" "[]"] g1 obtain a1 c1 where
    e1: "growEffect s nd (fst (query (spatialIndex s) (Some (n_position nd)) 50)) s1 a1 c1" by auto
  from growLoop_effect[of s1 rest inputs "Suc 0" q1] obtain a2 c2 where
    e2: "loopEffect s1 rest (fst (growLoop inputs (Suc 0) rest (s1, q1))) a2 c2" by blast
  let ?r = "growLoop inputs 0 (growthQueue s) (s, [])"
  have r: "?r = growLoop inputs (Suc 0) rest (s1, q1)" by (simp add: q g1)
  have n: "nodes (grow inputs s) = nodes (fst ?r)" "connections (grow inputs s) = connections (fst ?r)"
      "semanticField (grow inputs s) = semanticField (fst ?r)"
    using g q by (simp_all add: grow_def Let_def)
  have "nodes (fst ?r) = nodes s1 @ a2" "connections (fst ?r) = connections s1 @ c2"
      "semanticGraph (semanticField (fst ?r)) = semanticGraph (semanticField s1)"
    using e2 unfolding r loopEffect_def by simp_all
  moreover have "semanticGraph (semanticField s1) = semanticGraph (semanticField s)"
    using e1 unfolding growEffect_def by simp
  ultimately show ?thesis using n g1 by simp
qed

lemma seeded_queue: "growthQueue seededLayout = seedNode 0 (500, 300) (1, 0) #
    [seedNode 1 (400, 400) (0, 1), seedNode 2 (300, 300) (- 1, 0), seedNode 3 (400, 200) (0, - 1)]"
  by (simp add: seeded_rest seeded_nodes)

lemma first_tick:
  "\<exists>added (cs::connection list). nodes (grow tickInputs seededLayout) = nodes seededLayout @ [childNode0, branchNode0] @ added
     \<and> map (\<lambda>c. (c_from c, c_to c)) (connections (grow tickInputs seededLayout))
          = [(0, 4), (0, 5)] @ map (\<lambda>c. (c_from c, c_to c)) cs
     \<and> semanticGraph (semanticField (grow tickInputs seededLayout)) = [(ascii ''a'', [(ascii ''a'', 1)])]"
proof -
  from grow_first_turn[OF seeded_rest(2) seeded_queue, of tickInputs] obtain added cs where
    e: "nodes (grow tickInputs seededLayout)
          = nodes (fst (growNode (tickInputs 0) (seededLayout, []) (seedNode 0 (500, 300) (1, 0)))) @ added"
       "connections (grow tickInputs seededLayout)
          = connections (fst (growNode (tickInputs 0) (seededLayout, []) (seedNode 0 (500, 300) (1, 0)))) @ cs"
       "semanticGraph (semanticField (grow tickInputs seededLayout)) = semanticGraph (semanticField seededLayout)"
    by blast
  have n: "nodes (grow tickInputs seededLayout) = nodes seededLayout @ [childNode0, branchNode0] @ added"
    using e(1) seed0_turn(1) by simp
  have c: "map (\<lambda>c. (c_from c, c_to c)) (connections (grow tickInputs seededLayout))
          = [(0, 4), (0, 5)] @ map (\<lambda>c. (c_from c, c_to c)) cs"
    using e(2) seed0_turn(2) by simp
  have "semanticGraph (semanticField seededLayout) = [(ascii ''a'', [(ascii ''a'', 1)])]"
    by (simp add: seeded_rest field400)
  with e(3) have g: "semanticGraph (semanticField (grow tickInputs seededLayout)) = [(ascii ''a'', [(ascii ''a'', 1)])]"
    by simp
  show ?thesis by (rule exI[of _ added], rule exI[of _ cs]) (intro conjI n c g)
qed

lemma siblings_close:
  "getDistance (n_position childNode0) (n_position branchNode0) < 15"
proof -
  define r where "r = sqrt 3"
  have r2: "r * r = 3" by (simp add: r_def)
  have r1: "1 \<le> r" by (simp add: r_def)
  have "(72 / 5 - 9 * r) * (72 / 5 - 9 * r) + (9 / 5) * (9 / 5) = 5184 / 25 - (1296 / 5) * r + 81 * (r * r) + 81 / 25"
    by (simp add: algebra_simps)
  also have "\<dots> = 2268 / 5 - (1296 / 5) * r" by (simp add: r2)
  also have "\<dots> < 15 * 15" using r1 by simp
  finally have "sqrt ((72 / 5 - 9 * r) * (72 / 5 - 9 * r) + (9 / 5) * (9 / 5)) < 15"
    by (simp add: sqrt_less_iff)
  moreover have "getDistance (n_position childNode0) (n_position branchNode0)
       = sqrt ((72 / 5 - 9 * r) * (72 / 5 - 9 * r) + (9 / 5) * (9 / 5))"
    by (simp add: getDistance_def childNode0_def branchNode0_def r_def cos_30 sin_30 Let_def)
  ultimately show ?thesis by simp
qed

section \<open>Proofs: the claims on the growth engine\<close>

subsection \<open>The intersection test\<close>

text \<open>The seeds of \<open>seededLayout\<close> are pairwise at least 25 apart.\<close>

lemma seeds_apart:
  "\<forall>a\<in>set (nodes seededLayout). \<forall>b\<in>set (nodes seededLayout).
      n_id a \<noteq> n_id b \<longrightarrow> 25 \<le> getDistance (n_position a) (n_position b)"
proof -
  have "25 \<le> sqrt 20000" "25 \<le> sqrt 40000"
    by (rule real_le_rsqrt, simp)+
  then show ?thesis
    by (simp add: seeded_nodes seedNode_def getDistance_def Let_def)
qed

text \<open>
  Claim C1. After a tick, two nodes of the layout should be at least 15 apart, or at a
  semantic distance of at least 0.3, or at least 25 apart. The turn of seed 0 creates a
  child and a branch. \<open>createSemanticBranch\<close> tests the branch against the list that
  \<open>query(node.position, 50)\<close> returned at the start of the turn, before the child was pushed
  and inserted into the index, so the two are never compared. After the tick both are in
  the node list, both carry the label \<open>a\<close>, at semantic distance 0, and they are less than
  15 apart.
\<close>

theorem tick_places_siblings_too_close:
  "childNode0 \<in> set (nodes (grow tickInputs seededLayout))
   \<and> branchNode0 \<in> set (nodes (grow tickInputs seededLayout))
   \<and> n_id childNode0 \<noteq> n_id branchNode0
   \<and> getDistance (n_position childNode0) (n_position branchNode0) < 15
   \<and> getSemanticDistance (semanticField (grow tickInputs seededLayout))
        (n_char childNode0) (n_char branchNode0) < 3 / 10
   \<and> getDistance (n_position childNode0) (n_position branchNode0) < 25"
proof -
  from first_tick obtain added where
    n: "nodes (grow tickInputs seededLayout) = nodes seededLayout @ [childNode0, branchNode0] @ added"
    and g: "semanticGraph (semanticField (grow tickInputs seededLayout)) = [(ascii ''a'', [(ascii ''a'', 1)])]"
    by blast
  have "getSemanticDistance (semanticField (grow tickInputs seededLayout))
        (n_char childNode0) (n_char branchNode0) = 0"
    by (simp add: getSemanticDistance_def g childNode0_def branchNode0_def ascii_def)
  moreover have "n_id childNode0 \<noteq> n_id branchNode0"
    by (simp add: childNode0_def branchNode0_def)
  ultimately show ?thesis using n siblings_close by simp
qed

text \<open>Hence the node list after the tick holds two nodes that break the invariant.\<close>

theorem tick_places_siblings_too_close_witness:
  "\<exists>a\<in>set (nodes (grow tickInputs seededLayout)). \<exists>b\<in>set (nodes (grow tickInputs seededLayout)).
      n_id a \<noteq> n_id b
      \<and> getDistance (n_position a) (n_position b) < 15
      \<and> getSemanticDistance (semanticField (grow tickInputs seededLayout)) (n_char a) (n_char b) < 3 / 10
      \<and> getDistance (n_position a) (n_position b) < 25"
  using tick_places_siblings_too_close by blast

subsection \<open>Parent and child\<close>

text \<open>
  Claim C6. Every connection that a tick pushes goes from a node of the frontier to a node
  of the layout that names this parent, has at most its energy (the decay of the child is
  at least 0.1, the branch gets eight tenths of a positive energy) and is one generation
  later.
\<close>

theorem grow_connection_child_energy_generation:
  "\<exists>cs. connections (grow inputs s) = connections s @ cs
     \<and> (\<forall>c\<in>set cs. \<exists>p\<in>set (growthQueue s). \<exists>n\<in>set (nodes (grow inputs s)).
            c_from c = n_id p \<and> c_to c = n_id n
            \<and> n_parent n = Some (n_id p) \<and> n_energy n \<le> n_energy p
            \<and> n_generation n = n_generation p + 1)"
proof -
  from grow_effect[of inputs s] obtain added cs where
    e: "nodes (grow inputs s) = nodes s @ added" "connections (grow inputs s) = connections s @ cs"
     "\<forall>c\<in>set cs. \<exists>p\<in>set (growthQueue s). \<exists>n\<in>set added. c_from c = n_id p \<and> c_to c = n_id n
            \<and> n_parent n = Some (n_id p) \<and> n_energy n \<le> n_energy p
            \<and> n_generation n = n_generation p + 1" by blast
  have "\<forall>c\<in>set cs. \<exists>p\<in>set (growthQueue s). \<exists>n\<in>set (nodes (grow inputs s)).
            c_from c = n_id p \<and> c_to c = n_id n
            \<and> n_parent n = Some (n_id p) \<and> n_energy n \<le> n_energy p
            \<and> n_generation n = n_generation p + 1"
    using e(3) unfolding e(1) by (simp add: bex_Un) blast
  with e(2) show ?thesis by blast
qed

theorem grow_connection_child_energy_generation_witness:
  "connections seededLayout = [] \<and> connections (grow tickInputs seededLayout) \<noteq> []
   \<and> (\<exists>c\<in>set (connections (grow tickInputs seededLayout)).
        \<exists>p\<in>set (growthQueue seededLayout). \<exists>n\<in>set (nodes (grow tickInputs seededLayout)).
            c_from c = n_id p \<and> c_to c = n_id n
            \<and> n_parent n = Some (n_id p) \<and> n_energy n \<le> n_energy p
            \<and> n_generation n = n_generation p + 1)"
proof -
  from first_tick obtain cs0 :: "connection list" where
    "map (\<lambda>c. (c_from c, c_to c)) (connections (grow tickInputs seededLayout))
          = [(0, 4), (0, 5)] @ map (\<lambda>c. (c_from c, c_to c)) cs0" by blast
  then have ne: "connections (grow tickInputs seededLayout) \<noteq> []" by auto
  from grow_connection_child_energy_generation[of tickInputs seededLayout] obtain cs where
    c: "connections (grow tickInputs seededLayout) = connections seededLayout @ cs"
    and b: "\<forall>c\<in>set cs. \<exists>p\<in>set (growthQueue seededLayout). \<exists>n\<in>set (nodes (grow tickInputs seededLayout)).
            c_from c = n_id p \<and> c_to c = n_id n
            \<and> n_parent n = Some (n_id p) \<and> n_energy n \<le> n_energy p
            \<and> n_generation n = n_generation p + 1" by blast
  have e: "connections seededLayout = []" by (rule seeded_rest)
  from c e ne obtain c0 where "c0 \<in> set cs" "c0 \<in> set (connections (grow tickInputs seededLayout))"
    by (cases cs) auto
  with b e ne show ?thesis by blast
qed

subsection \<open>Node ids\<close>

text \<open>
  Claim C3. Ids are \<open>node_\<close> followed by the length of the node list. As long as nodes are
  only appended the ids are distinct (\<open>idsInOrder_grow\<close>, \<open>idsInOrder_initialize\<close>,
  \<open>idsInOrder_distinct\<close>). Once the list exceeds 1000 nodes, \<open>performMemoryOptimization\<close>
  removes the oldest and leaves 1000 nodes, whose last is \<open>node_1000\<close> or later: the node
  that the next turn creates is called \<open>node_1000\<close>, an id still in the list.
\<close>

theorem eviction_reuses_node_id:
  assumes "1000 < length (nodes s)" and "length (nodes s) \<le> 2000" and "idsInOrder s"
  shows "length (nodes (performMemoryOptimization s)) = 1000
     \<and> n_id (growthCandidate inp (performMemoryOptimization s) nd nearby)
         \<in> set (map n_id (nodes (performMemoryOptimization s)))"
proof -
  let ?k = "length (nodes s) - 1000"
  have n: "nodes (performMemoryOptimization s) = drop ?k (nodes s)"
    using assms(1) by (simp add: performMemoryOptimization_nodes)
  have "map n_id (drop ?k (nodes s)) = drop ?k [0 ..< length (nodes s)]"
    using assms(3) by (simp add: idsInOrder_def drop_map[symmetric])
  also have "\<dots> = [?k ..< length (nodes s)]" by (simp add: drop_upt)
  finally have ids: "map n_id (nodes (performMemoryOptimization s)) = [?k ..< length (nodes s)]"
    by (simp add: n)
  have l: "length (nodes (performMemoryOptimization s)) = 1000" using assms(1) by (simp add: n)
  have "1000 \<in> set [?k ..< length (nodes s)]" using assms(1,2) by simp
  with ids have "1000 \<in> set (map n_id (nodes (performMemoryOptimization s)))" by simp
  moreover have "n_id (growthCandidate inp (performMemoryOptimization s) nd nearby) = 1000"
    by (simp add: growthCandidate_def l)
  ultimately show ?thesis using l by simp
qed

lemma crowdedLayout_nodes:
  "length (nodes crowdedLayout) = 1001" "idsInOrder crowdedLayout"
  by (simp_all add: crowdedLayout_def idsInOrder_def nodeAt_def comp_def)

theorem eviction_reuses_node_id_witness:
  "length (nodes crowdedLayout) = 1001
   \<and> length (nodes (performMemoryOptimization crowdedLayout)) = 1000
   \<and> n_id (growthCandidate (tickInputs 0) (performMemoryOptimization crowdedLayout)
             (nodeAt 1000 (400, 300)) [])
         \<in> set (map n_id (nodes (performMemoryOptimization crowdedLayout)))"
  using eviction_reuses_node_id[of crowdedLayout "tickInputs 0" "nodeAt 1000 (400, 300)" "[]"]
  by (simp add: crowdedLayout_nodes)

text \<open>A tick after the eviction that adds a node leaves two nodes of the same id.\<close>

lemma grow_after_eviction_repeats_id:
  assumes "1000 < length (nodes s)" and "length (nodes s) \<le> 2000" and "idsInOrder s"
    and "nodes (grow inputs (performMemoryOptimization s)) \<noteq> nodes (performMemoryOptimization s)"
  shows "\<not> distinct (map n_id (nodes (grow inputs (performMemoryOptimization s))))"
proof -
  let ?e = "performMemoryOptimization s"
  from grow_effect[of inputs ?e] obtain added where
    a: "nodes (grow inputs ?e) = nodes ?e @ added"
       "map n_id added = [length (nodes ?e) ..< length (nodes ?e) + length added]" by blast
  from eviction_keeps_last_id[OF assms(1,2,3)] have l: "length (nodes ?e) = 1000"
    and m: "1000 \<in> set (map n_id (nodes ?e))" by simp_all
  from a(1) assms(4) have "added \<noteq> []" by auto
  then have "0 < length added" by simp
  then have "1000 \<in> set [length (nodes ?e) ..< length (nodes ?e) + length added]" using l by simp
  then have "1000 \<in> set (map n_id added)" using a(2) by simp
  with m show ?thesis unfolding a(1) by auto
qed

subsection \<open>An idle engine\<close>

text \<open>A layout is not growing before \<open>start\<close> and after \<open>pause\<close>.\<close>

lemma addSeeds_isGrowing: "isGrowing (foldl (addSeed rnd) s ks) = isGrowing s"
  by (induction ks arbitrary: s) (simp_all add: addSeed_def Let_def)

lemma not_growing_before_start:
  "\<not> isGrowing (newOrganicLayout hsim txt w h)"
  "\<not> isGrowing (initialize rnd (newOrganicLayout hsim txt w h))"
  "\<not> isGrowing (pause s)"
  by (simp_all add: initialize_def addSeeds_isGrowing newOrganicLayout_def pause_def)

text \<open>
  Claim C10. When the layout is not growing or the frontier is empty, \<open>grow\<close> returns the
  layout it was given: nodes, connections, generation, spatial index, trajectory,
  collocation fields and patterns are those of before.
\<close>

theorem grow_idle_unchanged:
  "\<not> isGrowing s \<or> growthQueue s = [] \<Longrightarrow> grow inputs s = s"
  by (simp add: grow_def)

theorem grow_idle_unchanged_witness:
  "\<not> isGrowing (pause seededLayout) \<and> grow tickInputs (pause seededLayout) = pause seededLayout
   \<and> growthQueue freshLayout = [] \<and> grow tickInputs freshLayout = freshLayout"
proof -
  have 1: "\<not> isGrowing (pause seededLayout)" by (simp add: pause_def)
  have 2: "growthQueue freshLayout = []" by (simp add: freshLayout_def newOrganicLayout_def)
  from 1 2 grow_idle_unchanged[of "pause seededLayout" tickInputs]
    grow_idle_unchanged[of freshLayout tickInputs]
  show ?thesis by simp
qed

end
